theory Spec2Isabelle
  imports Complex_Main
begin

section \<open>Data model (types.ts)\<close>

text \<open>
  JavaScript numbers are modelled by \<^typ>\<open>real\<close> (exact arithmetic in place of IEEE
  doubles), except for counters that only ever hold naturals (ticks, tile indices, the id
  counter), which are \<^typ>\<open>nat\<close> or \<^typ>\<open>int\<close>.  Entity and player handles are strings.
\<close>

datatype UnitType = Worker | Soldier | Archer | Healer | Catapult
datatype BuildingType = Base | Barracks | Farm | Tower | Blacksmith | SiegeWorkshop | Wall
datatype UpgradeType = UpAttack | UpDefense | UpRange
datatype ResourceType = ResGold | ResWood
datatype TileType = Grass | Forest | Water | Mountain | GoldTile | Sand | Dirt

record Position =
  pos_x :: real
  pos_y :: real

datatype UnitState =
    StIdle | StMoving | StAttacking | StGathering | StReturning | StBuilding | StHealing
  | StPatrol | StAttackMove | StHoldPosition

record Entity =
  ent_id :: string
  ownerId :: string
  ent_x :: real
  ent_y :: real
  hp :: real
  maxHp :: real
  ent_size :: real

record Unit = Entity +
  u_type :: UnitType
  u_state :: UnitState
  targetId :: "string option"
  targetPosition :: "Position option"
  waypoints :: "Position list"
  attackRange :: real
  attackDamage :: real
  attackCooldown :: real
  attackCooldownRemaining :: real
  moveSpeed :: real
  armor :: real
  gatherAmount :: real
  gatherRate :: real
  u_isUnderAttack :: bool
  u_lastAttackTime :: real

record ProductionQueueItem =
  q_id :: string
  q_type :: UnitType
  q_progress :: nat
  queuedAt :: nat

record Building = Entity +
  b_type :: BuildingType
  b_progress :: real
  productionQueue :: "ProductionQueueItem list"
  rallyPoint :: "Position option"
  b_isUnderAttack :: bool
  b_lastAttackTime :: real

record Resource =
  r_id :: string
  r_type :: ResourceType
  r_x :: real
  r_y :: real
  r_amount :: real
  r_maxAmount :: real

datatype ProjectileType = Arrow | Heal | Boulder

record Projectile =
  pj_id :: string
  pj_type :: ProjectileType
  pj_x :: real
  pj_y :: real
  pj_targetId :: string
  pj_targetPosition :: Position
  pj_speed :: real
  pj_damage :: real
  pj_ownerId :: string
  splashRadius :: real
  createdAt :: nat

record PlayerResources =
  gold :: real
  wood :: real
  supplyUsed :: real
  maxSupply :: real

record PlayerUpgrades =
  up_attack :: real
  up_defense :: real
  up_range :: real

datatype Team = Host | Guest
datatype Difficulty = Easy | Normal | Hard

record Player =
  p_id :: string
  p_name :: string
  team :: Team
  color :: string
  p_resources :: PlayerResources
  upgrades :: PlayerUpgrades
  ready :: bool

record DiscoveredTile =
  dt_x :: int
  dt_y :: int
  discoveredAt :: nat

record GameMap =
  m_width :: nat
  m_height :: nat
  m_tileSize :: nat
  m_tiles :: "TileType list list"
  m_resources :: "Resource list"

text \<open>The action union of \<open>ActionType\<close>, one constructor per \<open>type\<close> tag.\<close>

datatype ActionType =
    Move string Position
  | Attack string string
  | Stop string
  | HoldPosition string
  | Patrol string Position
  | AttackMove string Position
  | AttackGround string Position
  | Produce string UnitType
  | Build BuildingType Position
  | CancelProduction string string
  | SetRallyPoint string Position
  | Upgrade string UpgradeType
  | Gather string string
  | ReturnResources string

record ValidationResult =
  valid :: bool
  v_reason :: "string option"

subsection \<open>Constant tables\<close>

record Cost =
  c_gold :: real
  c_wood :: real

record UnitStats =
  us_hp :: real
  us_damage :: real
  us_range :: real
  us_speed :: real
  us_armor :: real
  us_cost :: Cost
  us_supply :: real
  us_buildTime :: nat
  us_gatherAmount :: "real option"
  us_gatherRate :: "real option"
  us_splashRadius :: "real option"

fun UNIT_STATS :: "UnitType \<Rightarrow> UnitStats" where
  "UNIT_STATS Worker = \<lparr>us_hp = 50, us_damage = 3, us_range = 5, us_speed = 2, us_armor = 0,
     us_cost = \<lparr>c_gold = 50, c_wood = 0\<rparr>, us_supply = 1, us_buildTime = 480,
     us_gatherAmount = Some 8, us_gatherRate = Some 60, us_splashRadius = None\<rparr>"
| "UNIT_STATS Soldier = \<lparr>us_hp = 80, us_damage = 10, us_range = 10, us_speed = 1.8, us_armor = 1,
     us_cost = \<lparr>c_gold = 80, c_wood = 20\<rparr>, us_supply = 1, us_buildTime = 720,
     us_gatherAmount = None, us_gatherRate = None, us_splashRadius = None\<rparr>"
| "UNIT_STATS Archer = \<lparr>us_hp = 60, us_damage = 8, us_range = 150, us_speed = 1.8, us_armor = 0,
     us_cost = \<lparr>c_gold = 60, c_wood = 40\<rparr>, us_supply = 1, us_buildTime = 600,
     us_gatherAmount = None, us_gatherRate = None, us_splashRadius = None\<rparr>"
| "UNIT_STATS Healer = \<lparr>us_hp = 60, us_damage = - 8, us_range = 100, us_speed = 1.8, us_armor = 0,
     us_cost = \<lparr>c_gold = 80, c_wood = 30\<rparr>, us_supply = 1, us_buildTime = 660,
     us_gatherAmount = None, us_gatherRate = None, us_splashRadius = None\<rparr>"
| "UNIT_STATS Catapult = \<lparr>us_hp = 120, us_damage = 40, us_range = 200, us_speed = 1.2, us_armor = 0,
     us_cost = \<lparr>c_gold = 120, c_wood = 80\<rparr>, us_supply = 3, us_buildTime = 900,
     us_gatherAmount = None, us_gatherRate = None, us_splashRadius = Some 50\<rparr>"

record BuildingStats =
  bs_hp :: real
  bs_size :: real
  bs_cost :: Cost
  bs_supply :: "real option"
  bs_buildTime :: nat
  bs_attackDamage :: "real option"
  bs_attackRange :: "real option"

fun BUILDING_STATS :: "BuildingType \<Rightarrow> BuildingStats" where
  "BUILDING_STATS Base = \<lparr>bs_hp = 800, bs_size = 96, bs_cost = \<lparr>c_gold = 0, c_wood = 0\<rparr>,
     bs_supply = Some 10, bs_buildTime = 0, bs_attackDamage = None, bs_attackRange = None\<rparr>"
| "BUILDING_STATS Barracks = \<lparr>bs_hp = 400, bs_size = 80, bs_cost = \<lparr>c_gold = 120, c_wood = 60\<rparr>,
     bs_supply = None, bs_buildTime = 1800, bs_attackDamage = None, bs_attackRange = None\<rparr>"
| "BUILDING_STATS Farm = \<lparr>bs_hp = 200, bs_size = 80, bs_cost = \<lparr>c_gold = 60, c_wood = 80\<rparr>,
     bs_supply = Some 8, bs_buildTime = 1200, bs_attackDamage = None, bs_attackRange = None\<rparr>"
| "BUILDING_STATS Tower = \<lparr>bs_hp = 300, bs_size = 48, bs_cost = \<lparr>c_gold = 100, c_wood = 50\<rparr>,
     bs_supply = None, bs_buildTime = 1500, bs_attackDamage = Some 20, bs_attackRange = Some 150\<rparr>"
| "BUILDING_STATS Blacksmith = \<lparr>bs_hp = 350, bs_size = 80, bs_cost = \<lparr>c_gold = 150, c_wood = 100\<rparr>,
     bs_supply = None, bs_buildTime = 2100, bs_attackDamage = None, bs_attackRange = None\<rparr>"
| "BUILDING_STATS SiegeWorkshop = \<lparr>bs_hp = 450, bs_size = 80, bs_cost = \<lparr>c_gold = 180, c_wood = 120\<rparr>,
     bs_supply = None, bs_buildTime = 2400, bs_attackDamage = None, bs_attackRange = None\<rparr>"
| "BUILDING_STATS Wall = \<lparr>bs_hp = 500, bs_size = 40, bs_cost = \<lparr>c_gold = 20, c_wood = 10\<rparr>,
     bs_supply = None, bs_buildTime = 600, bs_attackDamage = None, bs_attackRange = None\<rparr>"

definition VISION_RANGE :: real where
  "VISION_RANGE = 200"

subsection \<open>JavaScript helpers\<close>

text \<open>
  A \<open>Map<string, V>\<close> is an association list in insertion order with distinct keys:
  \<open>mget\<close> is \<open>get\<close>, \<open>mset\<close> is \<open>set\<close> (replace in place, or append a new key),
  \<open>mvalues\<close> and \<open>mkeys\<close> iterate in insertion order.  An object reached through the
  map and mutated in place is \<open>mupdate\<close> at its key.
\<close>

type_synonym 'v jsmap = "(string \<times> 'v) list"

definition mget :: "'v jsmap \<Rightarrow> string \<Rightarrow> 'v option" where
  "mget m k = map_of m k"

fun mset :: "string \<Rightarrow> 'v \<Rightarrow> 'v jsmap \<Rightarrow> 'v jsmap" where
  "mset k v [] = [(k, v)]"
| "mset k v (e # es) = (if fst e = k then (k, v) # es else e # mset k v es)"

definition mupdate :: "string \<Rightarrow> ('v \<Rightarrow> 'v) \<Rightarrow> 'v jsmap \<Rightarrow> 'v jsmap" where
  "mupdate k f m = map (\<lambda>e. if fst e = k then (fst e, f (snd e)) else e) m"

definition mvalues :: "'v jsmap \<Rightarrow> 'v list" where
  "mvalues m = map snd m"

definition mkeys :: "'v jsmap \<Rightarrow> string list" where
  "mkeys m = map fst m"

text \<open>\<open>Math.sqrt(dx * dx + dy * dy)\<close>.\<close>

definition distance :: "real \<Rightarrow> real \<Rightarrow> real" where
  "distance dx dy = sqrt (dx * dx + dy * dy)"

subsection \<open>The host environment\<close>

text \<open>
  \<open>Date.now()\<close>, \<open>Math.random()\<close> and the module-level \<open>idCounter\<close> are the engine's
  only inputs from outside.  The environment holds the counter, the value each successive
  call of \<open>Date.now()\<close> and \<open>Math.random()\<close> returns, and the rendering
  \<open>toString(36).substring(2, 9)\<close> of a random draw.
\<close>

record Env =
  idCounter :: nat
  clockCalls :: nat
  randomCalls :: nat
  clockAt :: "nat \<Rightarrow> nat"
  randomAt :: "nat \<Rightarrow> real"
  randomText :: "real \<Rightarrow> string"

definition dateNow :: "Env \<Rightarrow> nat \<times> Env" where
  "dateNow env = (clockAt env (clockCalls env), env\<lparr>clockCalls := clockCalls env + 1\<rparr>)"

definition mathRandom :: "Env \<Rightarrow> real \<times> Env" where
  "mathRandom env = (randomAt env (randomCalls env), env\<lparr>randomCalls := randomCalls env + 1\<rparr>)"

text \<open>Decimal rendering of a natural number, as template strings print it.\<close>

fun digits :: "nat \<Rightarrow> string" where
  "digits n =
    (if n < 10 then [char_of (48 + n)] else digits (n div 10) @ [char_of (48 + n mod 10)])"

declare digits.simps [simp del]

text \<open>\<open>`${Date.now()}-${idCounter++}-${Math.random().toString(36).substring(2, 9)}`\<close>\<close>

definition generateId :: "Env \<Rightarrow> string \<times> Env" where
  "generateId env =
    (let (now, env1) = dateNow env;
         c = idCounter env1;
         env2 = env1\<lparr>idCounter := c + 1\<rparr>;
         (r, env3) = mathRandom env2
     in (digits now @ ''-'' @ digits c @ ''-'' @ randomText env3 r, env3))"

section \<open>Map generator (GameEngine.generateMap)\<close>

text \<open>
  One call of the closure returned by \<open>seededRandom(seed)\<close>: from the captured state \<open>s\<close>
  it returns the draw \<open>s' / 233280\<close> and the new state \<open>s'\<close>.  Room seeds are naturals
  (\<open>Math.floor(Math.random() * 1000000)\<close>).
\<close>

definition seededRandom :: "nat \<Rightarrow> real \<times> nat" where
  "seededRandom s = (let s' = (s * 9301 + 49297) mod 233280 in (real s' / 233280, s'))"

definition terrain :: "real \<Rightarrow> TileType" where
  "terrain r =
    (if r < 0.5 then Grass else if r < 0.7 then Forest else if r < 0.85 then Dirt
     else if r < 0.92 then Sand else if r < 0.96 then GoldTile else Water)"

definition isSpawn :: "nat \<Rightarrow> nat \<Rightarrow> bool" where
  "isSpawn x y = ((x < 5 \<and> y < 5) \<or> (x > 54 \<and> y > 54))"

text \<open>The inner loop over \<open>x\<close> and the outer loop over \<open>y\<close>, each over its index range.\<close>

fun terrainRow :: "nat \<Rightarrow> nat list \<Rightarrow> nat \<Rightarrow> TileType list \<times> nat" where
  "terrainRow y [] s = ([], s)"
| "terrainRow y (x # xs) s =
    (if isSpawn x y then
       (let (row, s') = terrainRow y xs s in (Grass # row, s'))
     else
       (let (r, s1) = seededRandom s;
            (row, s') = terrainRow y xs s1
        in (terrain r # row, s')))"

fun terrainRows :: "nat list \<Rightarrow> nat list \<Rightarrow> nat \<Rightarrow> TileType list list \<times> nat" where
  "terrainRows [] xs s = ([], s)"
| "terrainRows (y # ys) xs s =
    (let (row, s1) = terrainRow y xs s;
         (rows, s') = terrainRows ys xs s1
     in (row # rows, s'))"

text \<open>The state threaded through the two resource loops.\<close>

record MapGen =
  mg_tiles :: "TileType list list"
  mg_resources :: "Resource list"
  mg_s :: nat
  mg_env :: Env

definition placeGoldMine :: "nat \<Rightarrow> nat \<Rightarrow> nat \<Rightarrow> MapGen \<Rightarrow> MapGen" where
  "placeGoldMine width height tileSize g =
    (let (rx, s1) = seededRandom (mg_s g);
         x = nat \<lfloor>rx * real (width - 4)\<rfloor> + 2;
         (ry, s2) = seededRandom s1;
         y = nat \<lfloor>ry * real (height - 4)\<rfloor> + 2
     in if mg_tiles g ! y ! x \<noteq> Grass then
          (let (newId, env') = generateId (mg_env g);
               (ra, s3) = seededRandom s2
           in \<lparr>mg_tiles = (mg_tiles g)[y := (mg_tiles g ! y)[x := GoldTile]],
               mg_resources = mg_resources g @
                 [\<lparr>r_id = newId, r_type = ResGold,
                   r_x = real (x * tileSize) + real tileSize / 2,
                   r_y = real (y * tileSize) + real tileSize / 2,
                   r_amount = 1500 + real_of_int \<lfloor>ra * 1500\<rfloor>, r_maxAmount = 3000\<rparr>],
               mg_s = s3, mg_env = env'\<rparr>)
        else g\<lparr>mg_s := s2\<rparr>)"

text \<open>
  The draws are the doubles \<open>s / 233280\<close> with \<open>s < 233280\<close>.  For each of them the
  comparisons with 0.5, 0.7, 0.85, 0.92 and 0.96 and the floors of the double products by
  10, 15, 56 and 1500 are those of the exact quotient.  The double product by 700 falls
  just below the whole number at two draws, \<open>0.35 * 700 = 244.99999999999997\<close> and
  \<open>0.7 * 700 = 489.99999999999994\<close>, so there \<open>Math.floor\<close> returns one less than the
  floor of the exact product; at every other draw it returns that floor.
\<close>

definition floorTimes700 :: "real \<Rightarrow> int" where
  "floorTimes700 r = (if r = 7 / 20 \<or> r = 7 / 10 then \<lfloor>r * 700\<rfloor> - 1 else \<lfloor>r * 700\<rfloor>)"

definition placeForest :: "nat \<Rightarrow> nat \<Rightarrow> nat \<Rightarrow> MapGen \<Rightarrow> MapGen" where
  "placeForest width height tileSize g =
    (let (rx, s1) = seededRandom (mg_s g);
         x = nat \<lfloor>rx * real (width - 4)\<rfloor> + 2;
         (ry, s2) = seededRandom s1;
         y = nat \<lfloor>ry * real (height - 4)\<rfloor> + 2
     in if mg_tiles g ! y ! x \<noteq> Grass \<and> mg_tiles g ! y ! x \<noteq> GoldTile then
          (let (newId, env') = generateId (mg_env g);
               (ra, s3) = seededRandom s2
           in \<lparr>mg_tiles = (mg_tiles g)[y := (mg_tiles g ! y)[x := Forest]],
               mg_resources = mg_resources g @
                 [\<lparr>r_id = newId, r_type = ResWood,
                   r_x = real (x * tileSize) + real tileSize / 2,
                   r_y = real (y * tileSize) + real tileSize / 2,
                   r_amount = 800 + real_of_int (floorTimes700 ra), r_maxAmount = 1500\<rparr>],
               mg_s = s3, mg_env = env'\<rparr>)
        else g\<lparr>mg_s := s2\<rparr>)"

text \<open>\<open>for (let i = 0; i < n; i++) body\<close>\<close>

primrec repeat :: "nat \<Rightarrow> ('a \<Rightarrow> 'a) \<Rightarrow> 'a \<Rightarrow> 'a" where
  "repeat 0 f a = a"
| "repeat (Suc n) f a = repeat n f (f a)"

definition generateMap :: "nat \<Rightarrow> Env \<Rightarrow> GameMap \<times> Env" where
  "generateMap seed env =
    (let width = 60; height = 60; tileSize = 40;
         (tiles, s0) = terrainRows [0..<height] [0..<width] seed;
         (rg, s1) = seededRandom s0;
         numGoldMines = 20 + nat \<lfloor>rg * 10\<rfloor>;
         (rf, s2) = seededRandom s1;
         numForests = 30 + nat \<lfloor>rf * 15\<rfloor>;
         g0 = \<lparr>mg_tiles = tiles, mg_resources = [], mg_s = s2, mg_env = env\<rparr>;
         g1 = repeat numGoldMines (placeGoldMine width height tileSize) g0;
         g2 = repeat numForests (placeForest width height tileSize) g1
     in (\<lparr>m_width = width, m_height = height, m_tileSize = tileSize,
          m_tiles = mg_tiles g2, m_resources = mg_resources g2\<rparr>, mg_env g2))"

section \<open>Game engine (class GameEngine)\<close>

record GameEngine =
  tick :: nat
  gmap :: GameMap
  units :: "Unit jsmap"
  buildings :: "Building jsmap"
  resourceNodes :: "Resource jsmap"
  projectiles :: "Projectile list"
  players :: "Player jsmap"
  discoveredTiles :: "DiscoveredTile list jsmap"
  gameOver :: bool
  winner :: "string option"
  winnerReason :: "string option"
  difficulty :: Difficulty
  aiEnabled :: bool
  aiPlayerId :: "string option"

text \<open>A call either returns or throws; what it had mutated before throwing stays mutated.\<close>

datatype 'a outcome = Returned 'a | Threw string

text \<open>\<open>new GameEngine(mapSeed, difficulty)\<close>\<close>

definition newGameEngine :: "nat \<Rightarrow> Difficulty \<Rightarrow> Env \<Rightarrow> GameEngine \<times> Env" where
  "newGameEngine mapSeed diff env =
    (let (m, env') = generateMap mapSeed env
     in (\<lparr>tick = 0, gmap = m, units = [], buildings = [], resourceNodes = [], projectiles = [],
          players = [], discoveredTiles = [], gameOver = False, winner = None,
          winnerReason = None, difficulty = diff, aiEnabled = False, aiPlayerId = None\<rparr>, env'))"

definition addPlayer :: "string \<Rightarrow> string \<Rightarrow> Team \<Rightarrow> string \<Rightarrow> GameEngine \<Rightarrow> GameEngine" where
  "addPlayer pid name tm col g =
    g\<lparr>players := mset pid
         \<lparr>p_id = pid, p_name = name, team = tm, color = col,
          p_resources = \<lparr>gold = (if tm = Host then 200 else 200),
                         wood = (if tm = Host then 100 else 100),
                         supplyUsed = 5, maxSupply = 10\<rparr>,
          upgrades = \<lparr>up_attack = 0, up_defense = 0, up_range = 0\<rparr>,
          ready = False\<rparr> (players g),
       discoveredTiles := mset pid [] (discoveredTiles g)\<rparr>"

text \<open>JavaScript truthiness of a number-valued optional field, and \<open>a || b\<close> on it.\<close>

fun truthy :: "real option \<Rightarrow> bool" where
  "truthy None = False"
| "truthy (Some v) = (v \<noteq> 0)"

fun orElse :: "real option \<Rightarrow> real \<Rightarrow> real" where
  "orElse None d = d"
| "orElse (Some v) d = (if v = 0 then d else v)"

definition createBuildingAtPosition ::
  "BuildingType \<Rightarrow> string \<Rightarrow> real \<Rightarrow> real \<Rightarrow> GameEngine \<Rightarrow> Env \<Rightarrow> GameEngine \<times> Env" where
  "createBuildingAtPosition ty owner tileX tileY g env =
    (let stats = BUILDING_STATS ty;
         ts = real (m_tileSize (gmap g));
         x = tileX * ts + ts / 2;
         y = tileY * ts + ts / 2;
         (newId, env') = generateId env;
         building = \<lparr>ent_id = newId, ownerId = owner, ent_x = x, ent_y = y,
                     hp = bs_hp stats, maxHp = bs_hp stats, ent_size = bs_size stats,
                     b_type = ty, b_progress = (if ty = Base then 100 else 10),
                     productionQueue = [], rallyPoint = None,
                     b_isUnderAttack = False, b_lastAttackTime = 0\<rparr>;
         g1 = g\<lparr>buildings := mset newId building (buildings g)\<rparr>
     in if truthy (bs_supply stats) then
          (g1\<lparr>players := mupdate owner
                 (\<lambda>p. p\<lparr>p_resources := (p_resources p)
                        \<lparr>maxSupply := maxSupply (p_resources p) + the (bs_supply stats)\<rparr>\<rparr>)
                 (players g1)\<rparr>, env')
        else (g1, env'))"

definition spawnUnit ::
  "UnitType \<Rightarrow> string \<Rightarrow> GameEngine \<Rightarrow> Env \<Rightarrow> Unit outcome \<times> GameEngine \<times> Env" where
  "spawnUnit ty owner g env =
    (let stats = UNIT_STATS ty in
     case mget (players g) owner of
       None \<Rightarrow> (Threw ''Player not found'', g, env)
     | Some player \<Rightarrow>
        (let base = find (\<lambda>b. ownerId b = owner \<and> b_type b = Base) (mvalues (buildings g));
             (x, env1) = (case base of
                            Some b \<Rightarrow> (let (r, e) = mathRandom env in (ent_x b + (r - 0.5) * 60, e))
                          | None \<Rightarrow> (100, env));
             (y, env2) = (case base of
                            Some b \<Rightarrow> (let (r, e) = mathRandom env1 in (ent_y b + (r - 0.5) * 60, e))
                          | None \<Rightarrow> (100, env1));
             (newId, env3) = generateId env2;
             unit0 = \<lparr>ent_id = newId, ownerId = owner, ent_x = x, ent_y = y,
                      hp = us_hp stats, maxHp = us_hp stats, ent_size = 16,
                      u_type = ty, u_state = StIdle, targetId = None, targetPosition = None,
                      waypoints = [], attackRange = us_range stats, attackDamage = us_damage stats,
                      attackCooldown = 60, attackCooldownRemaining = 0,
                      moveSpeed = us_speed stats, armor = us_armor stats,
                      gatherAmount = orElse (us_gatherAmount stats) 0,
                      gatherRate = orElse (us_gatherRate stats) 0,
                      u_isUnderAttack = False, u_lastAttackTime = 0\<rparr>;
             unit1 = (if base \<noteq> None then
                        (let u = unit0\<lparr>attackDamage := attackDamage unit0 + up_attack (upgrades player) * 2\<rparr>
                         in if ty = Archer \<or> ty = Worker
                            then u\<lparr>attackRange := attackRange u + up_range (upgrades player) * 10\<rparr>
                            else u)
                      else unit0)
         in (Returned unit1, g\<lparr>units := mset newId unit1 (units g)\<rparr>, env3)))"

definition addAIPlayer :: "string \<Rightarrow> GameEngine \<Rightarrow> Env \<Rightarrow> GameEngine \<times> Env" where
  "addAIPlayer pid g env =
    (let g1 = g\<lparr>aiEnabled := True, aiPlayerId := Some pid,
                 players := mset pid
                   \<lparr>p_id = pid, p_name = ''Enemy AI'', team = Guest, color = ''#DC143C'',
                    p_resources = \<lparr>gold = 300, wood = 150, supplyUsed = 4, maxSupply = 10\<rparr>,
                    upgrades = \<lparr>up_attack = 0, up_defense = 0, up_range = 0\<rparr>,
                    ready = True\<rparr> (players g),
                 discoveredTiles := mset pid [] (discoveredTiles g)\<rparr>;
         (g2, env1) = createBuildingAtPosition Base pid 88 88 g1 env
     in createBuildingAtPosition Barracks pid 85 85 g2 env1)"

text \<open>\<open>this.aiEnabled && this.aiPlayerId\<close>: the id is set and not the empty string.\<close>

definition aiActive :: "GameEngine \<Rightarrow> string option" where
  "aiActive g =
    (if aiEnabled g then (case aiPlayerId g of Some i \<Rightarrow> (if i = [] then None else Some i) | None \<Rightarrow> None)
     else None)"

text \<open>A sequence of calls that stops at the first one that throws.\<close>

fun spawnAll :: "(UnitType \<times> string) list \<Rightarrow> GameEngine \<Rightarrow> Env \<Rightarrow> unit outcome \<times> GameEngine \<times> Env" where
  "spawnAll [] g env = (Returned (), g, env)"
| "spawnAll ((ty, owner) # rest) g env =
    (case spawnUnit ty owner g env of
       (Threw e, g', env') \<Rightarrow> (Threw e, g', env')
     | (Returned u, g', env') \<Rightarrow> spawnAll rest g' env')"

definition initializeGame :: "GameEngine \<Rightarrow> Env \<Rightarrow> unit outcome \<times> GameEngine \<times> Env" where
  "initializeGame g env =
    (let hostPlayer = find (\<lambda>p. team p = Host) (mvalues (players g));
         (g1, env1) = (case hostPlayer of
                         Some h \<Rightarrow> createBuildingAtPosition Base (p_id h) (12 * 0.6) (12 * 0.6) g env
                       | None \<Rightarrow> (g, env));
         (g2, env2) = (case aiActive g1 of
                         Some ai \<Rightarrow> createBuildingAtPosition Base ai (88 * 0.6) (88 * 0.6) g1 env1
                       | None \<Rightarrow> (g1, env1));
         hostWorkers = (case hostPlayer of
                          Some h \<Rightarrow> [(Worker, p_id h), (Worker, p_id h), (Worker, p_id h)]
                        | None \<Rightarrow> []);
         aiWorkers = (case aiActive g2 of Some ai \<Rightarrow> [(Worker, ai), (Worker, ai)] | None \<Rightarrow> [])
     in spawnAll (hostWorkers @ aiWorkers) g2 env2)"

subsection \<open>Buildings and projectiles\<close>

definition createProjectile :: "Unit \<Rightarrow> 'a Entity_scheme \<Rightarrow> GameEngine \<Rightarrow> Env \<Rightarrow> GameEngine \<times> Env" where
  "createProjectile source target g env =
    (let isSplash = (u_type source = Catapult);
         (newId, env') = generateId env;
         projectile = \<lparr>pj_id = newId,
                       pj_type = (if u_type source = Healer then Heal
                                  else if u_type source = Catapult then Boulder else Arrow),
                       pj_x = ent_x source, pj_y = ent_y source,
                       pj_targetId = ent_id target,
                       pj_targetPosition = \<lparr>pos_x = ent_x target, pos_y = ent_y target\<rparr>,
                       pj_speed = (if u_type source = Catapult then 5
                                   else if u_type source = Healer then 6 else 8),
                       pj_damage = (if attackDamage source = 0 then 10 else attackDamage source),
                       pj_ownerId = ownerId source,
                       splashRadius = (if isSplash then 50 else 0),
                       createdAt = tick g\<rparr>
     in (g\<lparr>projectiles := projectiles g @ [projectile]\<rparr>, env'))"

text \<open>The scan of \<open>updateTowerAttack\<close> for the nearest enemy unit closer than the range.\<close>

fun nearestEnemyOf :: "Building \<Rightarrow> Unit list \<Rightarrow> Unit option \<times> real \<Rightarrow> Unit option \<times> real" where
  "nearestEnemyOf building [] acc = acc"
| "nearestEnemyOf building (u # us) (nearestEnemy, nearestDist) =
    (if ownerId u = ownerId building then nearestEnemyOf building us (nearestEnemy, nearestDist)
     else
       (let dist = distance (ent_x u - ent_x building) (ent_y u - ent_y building)
        in if dist < nearestDist then nearestEnemyOf building us (Some u, dist)
           else nearestEnemyOf building us (nearestEnemy, nearestDist)))"

definition updateTowerAttack :: "Building \<Rightarrow> GameEngine \<Rightarrow> Env \<Rightarrow> GameEngine \<times> Env" where
  "updateTowerAttack building g env =
    (let stats = BUILDING_STATS Tower in
     if \<not> truthy (bs_attackDamage stats) then (g, env)
     else
       (case fst (nearestEnemyOf building (mvalues (units g))
                    (None, orElse (bs_attackRange stats) 150)) of
          None \<Rightarrow> (g, env)
        | Some nearestEnemy \<Rightarrow>
           (let (newId, env1) = generateId env
            in createProjectile
                 \<lparr>ent_id = newId, ownerId = ownerId building,
                  ent_x = ent_x building, ent_y = ent_y building,
                  hp = 0, maxHp = 0, ent_size = 0,
                  u_type = Worker, u_state = StIdle, targetId = Some (ent_id nearestEnemy),
                  targetPosition = None, waypoints = [], attackRange = 0,
                  attackDamage = the (bs_attackDamage stats),
                  attackCooldown = 60, attackCooldownRemaining = 0,
                  moveSpeed = 0, armor = 0, gatherAmount = 0, gatherRate = 0,
                  u_isUnderAttack = False, u_lastAttackTime = 0\<rparr>
                 nearestEnemy g env1)))"

text \<open>The body of the loop of \<open>updateBuildings\<close> for the building stored under \<open>bid\<close>.\<close>

definition updateBuilding :: "string \<Rightarrow> GameEngine \<Rightarrow> Env \<Rightarrow> unit outcome \<times> GameEngine \<times> Env" where
  "updateBuilding bid g env =
    (case mget (buildings g) bid of
       None \<Rightarrow> (Returned (), g, env)
     | Some building \<Rightarrow>
        (let (r1, g1, env1) =
               (case productionQueue building of
                  [] \<Rightarrow> (Returned (), g, env)
                | item # rest \<Rightarrow>
                   (let item' = item\<lparr>q_progress := Suc (q_progress item)\<rparr>;
                        ga = g\<lparr>buildings := mupdate bid (\<lambda>b. b\<lparr>productionQueue := item' # rest\<rparr>)
                                                (buildings g)\<rparr>
                    in if q_progress item' \<ge> us_buildTime (UNIT_STATS (q_type item')) then
                         (case spawnUnit (q_type item') (ownerId building) ga env of
                            (Threw e, gb, envb) \<Rightarrow> (Threw e, gb, envb)
                          | (Returned u, gb, envb) \<Rightarrow>
                              (Returned (),
                               gb\<lparr>buildings := mupdate bid (\<lambda>b. b\<lparr>productionQueue := rest\<rparr>)
                                                  (buildings gb)\<rparr>, envb))
                       else (Returned (), ga, env)))
         in case r1 of
              Threw e \<Rightarrow> (Threw e, g1, env1)
            | Returned _ \<Rightarrow>
               (let (g2, env2) = (if b_type building = Tower \<and> hp building > 0
                                  then updateTowerAttack building g1 env1 else (g1, env1))
                in if b_isUnderAttack building then
                     (let (now, env3) = dateNow env2
                      in if real now - b_lastAttackTime building > 120
                         then (Returned (),
                               g2\<lparr>buildings := mupdate bid (\<lambda>b. b\<lparr>b_isUnderAttack := False\<rparr>)
                                                  (buildings g2)\<rparr>, env3)
                         else (Returned (), g2, env3))
                   else (Returned (), g2, env2))))"

fun updateBuildingsLoop :: "string list \<Rightarrow> GameEngine \<Rightarrow> Env \<Rightarrow> unit outcome \<times> GameEngine \<times> Env" where
  "updateBuildingsLoop [] g env = (Returned (), g, env)"
| "updateBuildingsLoop (bid # bids) g env =
    (case updateBuilding bid g env of
       (Threw e, g', env') \<Rightarrow> (Threw e, g', env')
     | (Returned _, g', env') \<Rightarrow> updateBuildingsLoop bids g' env')"

definition updateBuildings :: "GameEngine \<Rightarrow> Env \<Rightarrow> unit outcome \<times> GameEngine \<times> Env" where
  "updateBuildings g env = updateBuildingsLoop (mkeys (buildings g)) g env"

subsection \<open>Damage\<close>

text \<open>An attack target is a \<open>Unit | Building\<close>.\<close>

datatype Target = TUnit Unit | TBuilding Building

fun tgt_ownerId :: "Target \<Rightarrow> string" where
  "tgt_ownerId (TUnit u) = ownerId u"
| "tgt_ownerId (TBuilding b) = ownerId b"






text \<open>\<open>this.units.get(id) || this.buildings.get(id)\<close>\<close>

definition findTarget :: "GameEngine \<Rightarrow> string \<Rightarrow> Target option" where
  "findTarget g tid =
    (case mget (units g) tid of
       Some u \<Rightarrow> Some (TUnit u)
     | None \<Rightarrow> (case mget (buildings g) tid of Some b \<Rightarrow> Some (TBuilding b) | None \<Rightarrow> None))"











subsection \<open>Units attacking\<close>

text \<open>
  The melee branch of \<open>updateUnitAttack\<close> writes \<open>hp\<close> and \<open>isUnderAttack\<close> of the object
  that \<open>this.units.get(id) || this.buildings.get(id)\<close> returned.
\<close>

definition hitTarget :: "string \<Rightarrow> real \<Rightarrow> GameEngine \<Rightarrow> GameEngine" where
  "hitTarget tid damage g =
    (case mget (units g) tid of
       Some u \<Rightarrow> g\<lparr>units := mupdate tid
                    (\<lambda>u. u\<lparr>hp := hp u - damage, u_isUnderAttack := True\<rparr>) (units g)\<rparr>
     | None \<Rightarrow> g\<lparr>buildings := mupdate tid
                    (\<lambda>b. b\<lparr>hp := hp b - damage, b_isUnderAttack := True\<rparr>) (buildings g)\<rparr>)"


subsection \<open>Upgrade levels by owner\<close>



subsection \<open>Fog of war\<close>

definition isTileVisible :: "GameEngine \<Rightarrow> real \<Rightarrow> real \<Rightarrow> int \<Rightarrow> int \<Rightarrow> bool" where
  "isTileVisible g observerX observerY tileX tileY =
    (let ts = real (m_tileSize (gmap g));
         tileCenterX = real_of_int tileX * ts + ts / 2;
         tileCenterY = real_of_int tileY * ts + ts / 2;
         dx = tileCenterX - observerX;
         dy = tileCenterY - observerY
     in distance dx dy \<le> VISION_RANGE)"

text \<open>The body of the two inner loops for one offset \<open>(dx, dy)\<close> around an entity at \<open>(ex, ey)\<close>.\<close>

definition fogCell ::
  "GameEngine \<Rightarrow> real \<Rightarrow> real \<Rightarrow> int \<Rightarrow> int \<Rightarrow> DiscoveredTile list \<times> Env \<Rightarrow> DiscoveredTile list \<times> Env" where
  "fogCell g ex ey dy dx acc =
    (let ts = real (m_tileSize (gmap g));
         tileX = \<lfloor>ex / ts\<rfloor> + dx;
         tileY = \<lfloor>ey / ts\<rfloor> + dy;
         dist = distance (real_of_int dx) (real_of_int dy) * ts
     in if dist > VISION_RANGE then acc
        else if tileX < 0 \<or> tileX \<ge> int (m_width (gmap g)) \<or> tileY < 0 \<or> tileY \<ge> int (m_height (gmap g))
        then acc
        else if isTileVisible g ex ey tileX tileY then
          (let (now, env') = dateNow (snd acc)
           in (fst acc @ [\<lparr>dt_x = tileX, dt_y = tileY, discoveredAt = now\<rparr>], env'))
        else acc)"

definition fogEntity ::
  "GameEngine \<Rightarrow> real \<times> real \<Rightarrow> DiscoveredTile list \<times> Env \<Rightarrow> DiscoveredTile list \<times> Env" where
  "fogEntity g e acc =
    (let tileRadius = \<lceil>VISION_RANGE / real (m_tileSize (gmap g))\<rceil>
     in fold (\<lambda>dy acc1. fold (\<lambda>dx acc2. fogCell g (fst e) (snd e) dy dx acc2)
                              [- tileRadius..tileRadius] acc1)
             [- tileRadius..tileRadius] acc)"

definition fogPlayer :: "Player \<Rightarrow> GameEngine \<times> Env \<Rightarrow> GameEngine \<times> Env" where
  "fogPlayer player ge =
    (let g = fst ge;
         playerEntities =
           map (\<lambda>u. (ent_x u, ent_y u)) (filter (\<lambda>u. ownerId u = p_id player) (mvalues (units g)))
           @ map (\<lambda>b. (ent_x b, ent_y b)) (filter (\<lambda>b. ownerId b = p_id player) (mvalues (buildings g)));
         (tiles, env') = fold (fogEntity g) playerEntities ([], snd ge)
     in (g\<lparr>discoveredTiles := mset (p_id player) tiles (discoveredTiles g)\<rparr>, env'))"

definition updateFogOfWar :: "GameEngine \<Rightarrow> Env \<Rightarrow> GameEngine \<times> Env" where
  "updateFogOfWar g env = fold fogPlayer (mvalues (players g)) (g, env)"

text \<open>The tiles \<open>(x, y)\<close> in a player's discovered-tiles list.\<close>

definition discoveredSet :: "GameEngine \<Rightarrow> string \<Rightarrow> (int \<times> int) set" where
  "discoveredSet g pid =
    (case mget (discoveredTiles g) pid of
       None \<Rightarrow> {}
     | Some ts \<Rightarrow> set (map (\<lambda>t. (dt_x t, dt_y t)) ts))"

subsection \<open>Win condition\<close>

text \<open>The search of \<open>checkWinCondition\<close> for the first player without a base.\<close>

definition nameOrPlayer :: "Player option \<Rightarrow> string" where
  "nameOrPlayer p = (case p of Some q \<Rightarrow> (if p_name q = [] then ''Player'' else p_name q) | None \<Rightarrow> ''Player'')"

fun winLoop :: "string list \<Rightarrow> string list \<Rightarrow> GameEngine \<Rightarrow> GameEngine" where
  "winLoop playerIds [] g = g"
| "winLoop playerIds (playerId # rest) g =
    (let playerBases = filter (\<lambda>b. b_type b = Base \<and> ownerId b = playerId) (mvalues (buildings g))
     in if length playerBases = 0 then
          (let enemyIds = filter (\<lambda>i. i \<noteq> playerId) playerIds;
               enemyBase = find (\<lambda>b. b \<noteq> None)
                             (map (\<lambda>i. find (\<lambda>b. b_type b = Base \<and> ownerId b = i) (mvalues (buildings g)))
                                  enemyIds)
           in g\<lparr>gameOver := True,
                winner := (case enemyBase of
                             Some (Some b) \<Rightarrow> (if ownerId b = [] then None else Some (ownerId b))
                           | _ \<Rightarrow> None),
                winnerReason := Some (nameOrPlayer (mget (players g) playerId) @ '' eliminated'')\<rparr>)
        else winLoop playerIds rest g)"

definition checkWinCondition :: "GameEngine \<Rightarrow> GameEngine" where
  "checkWinCondition g = (if gameOver g then g else winLoop (mkeys (players g)) (mkeys (players g)) g)"

subsection \<open>Action processing\<close>

text \<open>Every handler returns the boolean the method returns, and the engine and environment
  it leaves behind.\<close>

definition handleMove :: "string \<Rightarrow> string \<Rightarrow> Position \<Rightarrow> GameEngine \<Rightarrow> bool \<times> GameEngine" where
  "handleMove playerId unitId target g =
    (case mget (units g) unitId of
       None \<Rightarrow> (False, g)
     | Some unit \<Rightarrow>
        (if ownerId unit \<noteq> playerId then (False, g)
         else (True, g\<lparr>units := mupdate unitId
                 (\<lambda>u. u\<lparr>u_state := StMoving, targetPosition := Some target, targetId := None\<rparr>)
                 (units g)\<rparr>)))"

definition handleAttack :: "string \<Rightarrow> string \<Rightarrow> string \<Rightarrow> GameEngine \<Rightarrow> bool \<times> GameEngine" where
  "handleAttack playerId unitId tid g =
    (case mget (units g) unitId of
       None \<Rightarrow> (False, g)
     | Some unit \<Rightarrow>
        (if ownerId unit \<noteq> playerId then (False, g)
         else (case findTarget g tid of
                 None \<Rightarrow> (False, g)
               | Some target \<Rightarrow>
                  (if tgt_ownerId target = playerId then (False, g)
                   else (True, g\<lparr>units := mupdate unitId
                           (\<lambda>u. u\<lparr>u_state := StAttacking, targetId := Some tid, targetPosition := None\<rparr>)
                           (units g)\<rparr>)))))"

definition handleStop :: "string \<Rightarrow> string \<Rightarrow> GameEngine \<Rightarrow> bool \<times> GameEngine" where
  "handleStop playerId unitId g =
    (case mget (units g) unitId of
       None \<Rightarrow> (False, g)
     | Some unit \<Rightarrow>
        (if ownerId unit \<noteq> playerId then (False, g)
         else (True, g\<lparr>units := mupdate unitId
                 (\<lambda>u. u\<lparr>u_state := StIdle, targetId := None, targetPosition := None, waypoints := []\<rparr>)
                 (units g)\<rparr>)))"

definition handleHoldPosition :: "string \<Rightarrow> string \<Rightarrow> GameEngine \<Rightarrow> bool \<times> GameEngine" where
  "handleHoldPosition playerId unitId g = handleStop playerId unitId g"

definition handlePatrol :: "string \<Rightarrow> string \<Rightarrow> Position \<Rightarrow> GameEngine \<Rightarrow> bool \<times> GameEngine" where
  "handlePatrol playerId unitId target g =
    (case mget (units g) unitId of
       None \<Rightarrow> (False, g)
     | Some unit \<Rightarrow>
        (if ownerId unit \<noteq> playerId then (False, g)
         else (True, g\<lparr>units := mupdate unitId
                 (\<lambda>u. u\<lparr>u_state := StPatrol, waypoints := waypoints u @ [target]\<rparr>)
                 (units g)\<rparr>)))"

definition handleAttackMove :: "string \<Rightarrow> string \<Rightarrow> Position \<Rightarrow> GameEngine \<Rightarrow> bool \<times> GameEngine" where
  "handleAttackMove playerId unitId target g =
    (case mget (units g) unitId of
       None \<Rightarrow> (False, g)
     | Some unit \<Rightarrow>
        (if ownerId unit \<noteq> playerId then (False, g)
         else (True, g\<lparr>units := mupdate unitId
                 (\<lambda>u. u\<lparr>u_state := StAttackMove, targetPosition := Some target, targetId := None\<rparr>)
                 (units g)\<rparr>)))"

definition handleProduce ::
  "string \<Rightarrow> string \<Rightarrow> UnitType \<Rightarrow> GameEngine \<Rightarrow> Env \<Rightarrow> bool \<times> GameEngine \<times> Env" where
  "handleProduce playerId buildingId unitType g env =
    (case mget (buildings g) buildingId of
       None \<Rightarrow> (False, g, env)
     | Some building \<Rightarrow>
        (if ownerId building \<noteq> playerId then (False, g, env)
         else
           (let stats = UNIT_STATS unitType in
            case mget (players g) playerId of
              None \<Rightarrow> (False, g, env)
            | Some player \<Rightarrow>
               (if gold (p_resources player) < c_gold (us_cost stats)
                   \<or> wood (p_resources player) < c_wood (us_cost stats)
                then (False, g, env)
                else
                  (let currentSupply = real (length (filter (\<lambda>u. ownerId u = playerId) (mvalues (units g))))
                   in if currentSupply + us_supply stats > maxSupply (p_resources player)
                      then (False, g, env)
                      else
                        (let g1 = g\<lparr>players := mupdate playerId
                                      (\<lambda>p. p\<lparr>p_resources := (p_resources p)
                                             \<lparr>gold := gold (p_resources p) - c_gold (us_cost stats),
                                              wood := wood (p_resources p) - c_wood (us_cost stats)\<rparr>\<rparr>)
                                      (players g)\<rparr>;
                             (newId, env') = generateId env;
                             g2 = g1\<lparr>buildings := mupdate buildingId
                                      (\<lambda>b. b\<lparr>productionQueue := productionQueue b @
                                             [\<lparr>q_id = newId, q_type = unitType, q_progress = 0,
                                               queuedAt = tick g1\<rparr>]\<rparr>)
                                      (buildings g1)\<rparr>
                         in (True, g2, env')))))))"

definition canBuildAt :: "GameEngine \<Rightarrow> BuildingType \<Rightarrow> Position \<Rightarrow> bool" where
  "canBuildAt g buildingType position =
    (let stats = BUILDING_STATS buildingType;
         halfSize = bs_size stats / 2
     in if pos_x position - halfSize < 0
           \<or> pos_x position + halfSize > real (m_width (gmap g) * m_tileSize (gmap g))
        then False
        else if pos_y position - halfSize < 0
           \<or> pos_y position + halfSize > real (m_height (gmap g) * m_tileSize (gmap g))
        then False
        else list_all
               (\<lambda>building. \<not> (distance (ent_x building - pos_x position) (ent_y building - pos_y position)
                                  < (ent_size building + bs_size stats) / 2 + 10))
               (mvalues (buildings g)))"

definition handleBuild ::
  "string \<Rightarrow> BuildingType \<Rightarrow> Position \<Rightarrow> GameEngine \<Rightarrow> Env \<Rightarrow> bool \<times> GameEngine \<times> Env" where
  "handleBuild playerId buildingType position g env =
    (case mget (players g) playerId of
       None \<Rightarrow> (False, g, env)
     | Some player \<Rightarrow>
        (let stats = BUILDING_STATS buildingType
         in if gold (p_resources player) < c_gold (bs_cost stats)
               \<or> wood (p_resources player) < c_wood (bs_cost stats)
            then (False, g, env)
            else if \<not> canBuildAt g buildingType position then (False, g, env)
            else
              (let g1 = g\<lparr>players := mupdate playerId
                            (\<lambda>p. p\<lparr>p_resources := (p_resources p)
                                   \<lparr>gold := gold (p_resources p) - c_gold (bs_cost stats),
                                    wood := wood (p_resources p) - c_wood (bs_cost stats)\<rparr>\<rparr>)
                            (players g)\<rparr>;
                   (newId, env') = generateId env;
                   building = \<lparr>ent_id = newId, ownerId = playerId,
                               ent_x = pos_x position, ent_y = pos_y position,
                               hp = bs_hp stats * 0.1, maxHp = bs_hp stats, ent_size = bs_size stats,
                               b_type = buildingType, b_progress = 10,
                               productionQueue = [], rallyPoint = None,
                               b_isUnderAttack = False, b_lastAttackTime = 0\<rparr>
               in (True, g1\<lparr>buildings := mset newId building (buildings g1)\<rparr>, env'))))"

fun upgradeLevel :: "UpgradeType \<Rightarrow> PlayerUpgrades \<Rightarrow> real" where
  "upgradeLevel UpAttack u = up_attack u"
| "upgradeLevel UpDefense u = up_defense u"
| "upgradeLevel UpRange u = up_range u"

fun upgradeIncrement :: "UpgradeType \<Rightarrow> PlayerUpgrades \<Rightarrow> PlayerUpgrades" where
  "upgradeIncrement UpAttack u = u\<lparr>up_attack := up_attack u + 1\<rparr>"
| "upgradeIncrement UpDefense u = u\<lparr>up_defense := up_defense u + 1\<rparr>"
| "upgradeIncrement UpRange u = u\<lparr>up_range := up_range u + 1\<rparr>"

definition handleUpgrade :: "string \<Rightarrow> string \<Rightarrow> UpgradeType \<Rightarrow> GameEngine \<Rightarrow> bool \<times> GameEngine" where
  "handleUpgrade playerId buildingId upgradeType g =
    (case mget (buildings g) buildingId of
       None \<Rightarrow> (False, g)
     | Some building \<Rightarrow>
        (if ownerId building \<noteq> playerId then (False, g)
         else
           (case mget (players g) playerId of
              None \<Rightarrow> (False, g)
            | Some player \<Rightarrow>
               (let currentLevel = upgradeLevel upgradeType (upgrades player);
                    maxLevel = (if upgradeType = UpRange then 2 else 3)
                in if currentLevel \<ge> maxLevel then (False, g)
                   else if gold (p_resources player) < 100 then (False, g)
                   else (True, g\<lparr>players := mupdate playerId
                           (\<lambda>p. p\<lparr>p_resources := (p_resources p)\<lparr>gold := gold (p_resources p) - 100\<rparr>,
                                  upgrades := upgradeIncrement upgradeType (upgrades p)\<rparr>)
                           (players g)\<rparr>)))))"

definition handleGather :: "string \<Rightarrow> string \<Rightarrow> string \<Rightarrow> GameEngine \<Rightarrow> bool \<times> GameEngine" where
  "handleGather playerId unitId resourceId g =
    (case mget (units g) unitId of
       None \<Rightarrow> (False, g)
     | Some unit \<Rightarrow>
        (if ownerId unit \<noteq> playerId \<or> u_type unit \<noteq> Worker then (False, g)
         else (case mget (resourceNodes g) resourceId of
                 None \<Rightarrow> (False, g)
               | Some resource \<Rightarrow>
                  (True, g\<lparr>units := mupdate unitId
                     (\<lambda>u. u\<lparr>u_state := StGathering, targetId := Some resourceId\<rparr>)
                     (units g)\<rparr>))))"

text \<open>Handlers that make no call into the environment leave it as it is.\<close>

definition noEnv :: "bool \<times> GameEngine \<Rightarrow> Env \<Rightarrow> bool \<times> GameEngine \<times> Env" where
  "noEnv r env = (fst r, snd r, env)"

fun dispatch :: "string \<Rightarrow> ActionType \<Rightarrow> GameEngine \<Rightarrow> Env \<Rightarrow> bool \<times> GameEngine \<times> Env" where
  "dispatch playerId (Move unitId target) g env = noEnv (handleMove playerId unitId target g) env"
| "dispatch playerId (Attack unitId tid) g env = noEnv (handleAttack playerId unitId tid g) env"
| "dispatch playerId (Stop unitId) g env = noEnv (handleStop playerId unitId g) env"
| "dispatch playerId (HoldPosition unitId) g env = noEnv (handleHoldPosition playerId unitId g) env"
| "dispatch playerId (Patrol unitId target) g env = noEnv (handlePatrol playerId unitId target g) env"
| "dispatch playerId (AttackMove unitId target) g env =
     noEnv (handleAttackMove playerId unitId target g) env"
| "dispatch playerId (Produce buildingId unitType) g env =
     handleProduce playerId buildingId unitType g env"
| "dispatch playerId (Build buildingType position) g env =
     handleBuild playerId buildingType position g env"
| "dispatch playerId (Upgrade buildingId upgradeType) g env =
     noEnv (handleUpgrade playerId buildingId upgradeType g) env"
| "dispatch playerId (Gather unitId resourceId) g env =
     noEnv (handleGather playerId unitId resourceId g) env"
| "dispatch playerId (AttackGround unitId target) g env = (False, g, env)"
| "dispatch playerId (CancelProduction buildingId queueItemId) g env = (False, g, env)"
| "dispatch playerId (SetRallyPoint buildingId position) g env = (False, g, env)"
| "dispatch playerId (ReturnResources unitId) g env = (False, g, env)"

text \<open>\<open>GameEngine.processAction\<close>\<close>

definition processAction :: "string \<Rightarrow> ActionType \<Rightarrow> GameEngine \<Rightarrow> Env \<Rightarrow> bool \<times> GameEngine \<times> Env" where
  "processAction playerId action g env =
    (case mget (players g) playerId of
       None \<Rightarrow> (False, g, env)
     | Some player \<Rightarrow> dispatch playerId action g env)"

section \<open>Action validator (validator.ts)\<close>

definition invalid :: "string \<Rightarrow> ValidationResult" where
  "invalid r = \<lparr>valid = False, v_reason = Some r\<rparr>"

definition validOk :: ValidationResult where
  "validOk = \<lparr>valid = True, v_reason = None\<rparr>"

text \<open>The action's fields are typed, so the checks of \<open>unitType\<close> against \<open>UNIT_STATS\<close>
  and of the position's shape always pass; an empty \<open>buildingId\<close> is falsy.\<close>

definition validateProduceAction :: "string \<Rightarrow> UnitType \<Rightarrow> string set \<Rightarrow> PlayerResources \<Rightarrow> ValidationResult" where
  "validateProduceAction buildingId unitType ownedBuildingIds playerResources =
    (if buildingId = [] then invalid ''Missing building ID''
     else if buildingId \<notin> ownedBuildingIds then invalid ''Building not owned by player''
     else
       (let stats = UNIT_STATS unitType
        in if gold playerResources < c_gold (us_cost stats) \<or> wood playerResources < c_wood (us_cost stats)
           then invalid ''Insufficient resources''
           else if supplyUsed playerResources \<ge> maxSupply playerResources
           then invalid ''Insufficient supply''
           else validOk))"

text \<open>The optional \<open>gameState\<close> argument of the validator.\<close>

record ValidatorState =
  mapWidth :: real
  mapHeight :: real
  vs_units :: "Unit jsmap"
  vs_buildings :: "Building jsmap"

definition validateBuildAction ::
  "BuildingType \<Rightarrow> Position \<Rightarrow> PlayerResources \<Rightarrow> ValidatorState option \<Rightarrow> ValidationResult" where
  "validateBuildAction buildingType position playerResources gameState =
    (let stats = BUILDING_STATS buildingType
     in if gold playerResources < c_gold (bs_cost stats) \<or> wood playerResources < c_wood (bs_cost stats)
        then invalid ''Insufficient resources''
        else
          (case gameState of
             None \<Rightarrow> validOk
           | Some gs \<Rightarrow>
              (let halfSize = bs_size stats / 2
               in if pos_x position - halfSize < 0 \<or> pos_x position + halfSize > mapWidth gs
                     \<or> pos_y position - halfSize < 0 \<or> pos_y position + halfSize > mapHeight gs
                  then invalid ''Build position out of bounds''
                  else if list_ex
                            (\<lambda>building. distance (ent_x building - pos_x position)
                                                  (ent_y building - pos_y position)
                                         < (ent_size building + bs_size stats) / 2 + 10)
                            (mvalues (vs_buildings gs))
                  then invalid ''Cannot build here: too close to another building''
                  else validOk)))"

text \<open>The game state the room manager hands to the validator.\<close>

definition validatorStateOf :: "GameEngine \<Rightarrow> ValidatorState" where
  "validatorStateOf g =
    \<lparr>mapWidth = real (m_width (gmap g) * m_tileSize (gmap g)),
     mapHeight = real (m_height (gmap g) * m_tileSize (gmap g)),
     vs_units = units g, vs_buildings = buildings g\<rparr>"

section \<open>Win arbiter (checkWinConditions)\<close>

record WinConditionResult =
  wc_gameOver :: bool
  wc_winner :: "string option"
  wc_reason :: "string option"
  eliminatedPlayers :: "string list"

text \<open>\<open>player.name || `Player ${player.id.substring(0, 8)}`\<close>\<close>

definition getPlayerName :: "Player \<Rightarrow> string" where
  "getPlayerName player = (if p_name player = [] then ''Player '' @ take 8 (p_id player) else p_name player)"

definition hasBase :: "GameEngine \<Rightarrow> string \<Rightarrow> bool" where
  "hasBase gs pid =
    list_ex (\<lambda>b. b_type b = Base) (filter (\<lambda>b. ownerId b = pid) (mvalues (buildings gs)))"

text \<open>The last block of \<open>checkWinConditions\<close>: victory by destruction, else no result.\<close>

definition destructionCheck :: "GameEngine \<Rightarrow> WinConditionResult" where
  "destructionCheck gs =
    (case mvalues (players gs) of
       [player1, player2] \<Rightarrow>
         (let player1Units = filter (\<lambda>u. ownerId u = p_id player1) (mvalues (units gs));
              player1Buildings = filter (\<lambda>b. ownerId b = p_id player1) (mvalues (buildings gs));
              player2Units = filter (\<lambda>u. ownerId u = p_id player2) (mvalues (units gs));
              player2Buildings = filter (\<lambda>b. ownerId b = p_id player2) (mvalues (buildings gs))
          in if length player1Units = 0 \<and> length player1Buildings = 0
                \<and> length (filter (\<lambda>b. b_type b = Base) player1Buildings) = 0
             then \<lparr>wc_gameOver = True, wc_winner = Some (p_id player2),
                   wc_reason = Some (getPlayerName player2 @ '' wins! Enemy army destroyed!''),
                   eliminatedPlayers = [p_id player1]\<rparr>
             else if length player2Units = 0 \<and> length player2Buildings = 0
                \<and> length (filter (\<lambda>b. b_type b = Base) player2Buildings) = 0
             then \<lparr>wc_gameOver = True, wc_winner = Some (p_id player1),
                   wc_reason = Some (getPlayerName player1 @ '' wins! Enemy army destroyed!''),
                   eliminatedPlayers = [p_id player2]\<rparr>
             else \<lparr>wc_gameOver = False, wc_winner = None, wc_reason = None, eliminatedPlayers = []\<rparr>)
     | _ \<Rightarrow> \<lparr>wc_gameOver = False, wc_winner = None, wc_reason = None, eliminatedPlayers = []\<rparr>)"

definition checkWinConditions :: "GameEngine \<Rightarrow> WinConditionResult" where
  "checkWinConditions gs =
    (let ps = mvalues (players gs);
         eliminated = map p_id (filter (\<lambda>p. \<not> hasBase gs (p_id p)) ps)
     in if length eliminated > 0 then
          (let remainingPlayers = filter (\<lambda>p. p_id p \<notin> set eliminated) ps
           in case remainingPlayers of
                [r] \<Rightarrow> \<lparr>wc_gameOver = True, wc_winner = Some (p_id r),
                         wc_reason = Some (getPlayerName r @ '' wins by elimination!''),
                         eliminatedPlayers = eliminated\<rparr>
              | _ \<Rightarrow>
                 (case ps of
                    [p0, p1] \<Rightarrow>
                      (let hostHasBase = list_ex (\<lambda>b. b_type b = Base \<and> ownerId b = p_id p0)
                                           (mvalues (buildings gs));
                           guestHasBase = list_ex (\<lambda>b. b_type b = Base \<and> ownerId b = p_id p1)
                                            (mvalues (buildings gs))
                       in if \<not> hostHasBase \<and> guestHasBase then
                            \<lparr>wc_gameOver = True, wc_winner = Some (p_id p1),
                             wc_reason = Some (getPlayerName p1 @ '' wins! Enemy base destroyed!''),
                             eliminatedPlayers = [p_id p0]\<rparr>
                          else if \<not> guestHasBase \<and> hostHasBase then
                            \<lparr>wc_gameOver = True, wc_winner = Some (p_id p0),
                             wc_reason = Some (getPlayerName p0 @ '' wins! Enemy base destroyed!''),
                             eliminatedPlayers = [p_id p1]\<rparr>
                          else destructionCheck gs)
                  | _ \<Rightarrow> destructionCheck gs))
        else destructionCheck gs)"

section \<open>Room manager (room-manager.ts)\<close>

datatype RoomStatus = Waiting | Starting | Playing | Ended

record RoomConfig =
  roomId :: string
  roomName :: string
  mapSeed :: nat
  cfg_difficulty :: Difficulty
  maxPlayers :: nat

record PlayerConnection =
  pc_id :: string
  pc_name :: string
  pc_team :: Team
  pc_color :: string
  pc_ready :: bool
  lastPing :: nat
  isConnected :: bool
  pc_resources :: PlayerResources
  ownedUnitIds :: "string set"
  ownedBuildingIds :: "string set"

text \<open>The two intervals of a room hold the period in milliseconds while the timer runs.\<close>

record GameRoom =
  room_id :: string
  room_name :: string
  config :: RoomConfig
  room_players :: "PlayerConnection jsmap"
  status :: RoomStatus
  engine :: "GameEngine option"
  room_createdAt :: nat
  startedAt :: "nat option"
  hostId :: string
  tickInterval :: "real option"
  snapshotInterval :: "real option"

record RoomState =
  rs_config :: RoomConfig
  rs_players :: "Player list"
  gameState :: "GameEngine option"
  gameStarted :: bool
  rs_createdAt :: nat
  rs_hostId :: string

definition convertToRoomState :: "GameRoom \<Rightarrow> RoomState" where
  "convertToRoomState room =
    \<lparr>rs_config = config room,
     rs_players = map (\<lambda>p. \<lparr>p_id = pc_id p, p_name = pc_name p, team = pc_team p, color = pc_color p,
                           p_resources = pc_resources p,
                           upgrades = \<lparr>up_attack = 0, up_defense = 0, up_range = 0\<rparr>,
                           ready = pc_ready p\<rparr>)
                      (mvalues (room_players room)),
     gameState = engine room,
     gameStarted = (status room = Playing \<or> status room = Ended),
     rs_createdAt = room_createdAt room,
     rs_hostId = hostId room\<rparr>"

text \<open>\<open>for (const [playerId, connection] of room.players.entries()) engine.addPlayer(...)\<close>\<close>

definition addPlayers :: "PlayerConnection jsmap \<Rightarrow> GameEngine \<Rightarrow> GameEngine" where
  "addPlayers conns g =
    fold (\<lambda>e g'. addPlayer (fst e) (pc_name (snd e)) (pc_team (snd e)) (pc_color (snd e)) g') conns g"

definition startGame ::
  "string \<Rightarrow> string \<Rightarrow> GameRoom jsmap \<Rightarrow> Env \<Rightarrow> RoomState option outcome \<times> GameRoom jsmap \<times> Env" where
  "startGame rid hid rooms env =
    (case mget rooms rid of
       None \<Rightarrow> (Returned None, rooms, env)
     | Some room \<Rightarrow>
        (if hostId room \<noteq> hid then (Returned None, rooms, env)
         else if status room \<noteq> Waiting then (Returned None, rooms, env)
         else
           (let allReady = list_all pc_ready (mvalues (room_players room))
            in if \<not> allReady \<and> length (room_players room) > 1 then (Returned None, rooms, env)
               else
                 (let (engine0, env1) = newGameEngine (mapSeed (config room)) (cfg_difficulty (config room)) env;
                      engine1 = addPlayers (room_players room) engine0
                  in case initializeGame engine1 env1 of
                       (Threw e, engine2, env2) \<Rightarrow> (Threw e, rooms, env2)
                     | (Returned _, engine2, env2) \<Rightarrow>
                        (let (now, env3) = dateNow env2;
                             room' = room\<lparr>engine := Some engine2, status := Playing,
                                          startedAt := Some now,
                                          tickInterval := Some (1000 / 60),
                                          snapshotInterval := Some 100\<rparr>
                         in (Returned (Some (convertToRoomState room')),
                             mupdate rid (\<lambda>r. room') rooms, env3))))))"

text \<open>
  The condition under which \<open>startGame\<close> goes on to create the engine: the room exists, the
  caller is its host, it is waiting, and all players are ready or there is at most one
  player.  \<open>succeeded\<close> reads the result: a room state that reports the game as started.
\<close>

definition startable :: "string \<Rightarrow> string \<Rightarrow> GameRoom jsmap \<Rightarrow> bool" where
  "startable rid hid rooms =
    (case mget rooms rid of
       None \<Rightarrow> False
     | Some room \<Rightarrow>
         hostId room = hid \<and> status room = Waiting
         \<and> (list_all pc_ready (mvalues (room_players room)) \<or> length (room_players room) \<le> 1))"

definition succeeded :: "RoomState option outcome \<Rightarrow> bool" where
  "succeeded r = (case r of Returned (Some rs) \<Rightarrow> gameStarted rs | _ \<Rightarrow> False)"

text \<open>In the engine, every player is stored under the player's own id.\<close>

definition keysOk :: "Player jsmap \<Rightarrow> bool" where
  "keysOk ps = list_all (\<lambda>e. p_id (snd e) = fst e) ps"

section \<open>Anti-cheat monitor (anticheat.ts)\<close>

datatype Severity = Warning | Suspicious | Confirmed

text \<open>The reason strings of \<open>validateResources\<close> interpolate the compared numbers; the
  model keeps the template and its arguments.\<close>

datatype CheatReason =
    SignificantGoldDiscrepancy real real
  | MinorGoldDiscrepancy real real
  | SignificantWoodDiscrepancy real real
  | MinorWoodDiscrepancy real real
  | InvalidSupply real real

record CheatDetectionResult =
  flagged :: bool
  reason :: "CheatReason option"
  severity :: Severity

text \<open>
  JavaScript numbers are IEEE doubles.  On integers of magnitude at most \<open>2^48\<close> the
  subtraction, \<open>Math.abs\<close>, the product \<open>tolerance * 10\<close> and the comparisons of
  \<open>validateResources\<close> are exact, so there the code computes what the expressions below
  denote.  The model is defined on such inputs only: for any other input (a fraction, a
  value beyond \<open>2^48\<close>, \<open>NaN\<close>, an infinity) it is \<open>None\<close> and says nothing of the code.
\<close>

definition exactInt :: "real \<Rightarrow> bool" where
  "exactInt x = (x \<in> \<int> \<and> \<bar>x\<bar> \<le> 2 ^ 48)"

text \<open>The fields \<open>validateResources\<close> reads: gold and wood of both sides, supply and supply
  cap of the client.\<close>

definition exactResources :: "PlayerResources \<Rightarrow> PlayerResources \<Rightarrow> bool" where
  "exactResources clientResources serverResources =
    (exactInt (gold clientResources) \<and> exactInt (gold serverResources)
     \<and> exactInt (wood clientResources) \<and> exactInt (wood serverResources)
     \<and> exactInt (supplyUsed clientResources) \<and> exactInt (maxSupply clientResources))"

definition validateResources ::
  "string \<Rightarrow> PlayerResources \<Rightarrow> PlayerResources \<Rightarrow> real \<Rightarrow> CheatDetectionResult option" where
  "validateResources playerId clientResources serverResources tolerance =
    (if \<not> (exactResources clientResources serverResources \<and> exactInt tolerance) then None
     else Some
      (let goldDiff = \<bar>gold clientResources - gold serverResources\<bar> in
       if goldDiff > tolerance * 10 then
         \<lparr>flagged = True,
          reason = Some (SignificantGoldDiscrepancy (gold clientResources) (gold serverResources)),
          severity = Confirmed\<rparr>
       else if goldDiff > tolerance then
         \<lparr>flagged = True,
          reason = Some (MinorGoldDiscrepancy (gold clientResources) (gold serverResources)),
          severity = Warning\<rparr>
       else
        (let woodDiff = \<bar>wood clientResources - wood serverResources\<bar> in
         if woodDiff > tolerance * 10 then
           \<lparr>flagged = True,
            reason = Some (SignificantWoodDiscrepancy (wood clientResources) (wood serverResources)),
            severity = Confirmed\<rparr>
         else if woodDiff > tolerance then
           \<lparr>flagged = True,
            reason = Some (MinorWoodDiscrepancy (wood clientResources) (wood serverResources)),
            severity = Warning\<rparr>
         else if supplyUsed clientResources > maxSupply clientResources then
           \<lparr>flagged = True,
            reason = Some (InvalidSupply (supplyUsed clientResources) (maxSupply clientResources)),
            severity = Confirmed\<rparr>
         else \<lparr>flagged = False, reason = None, severity = Warning\<rparr>)))"

text \<open>The default argument \<open>tolerance = 5\<close>.\<close>

definition validateResources_default ::
  "string \<Rightarrow> PlayerResources \<Rightarrow> PlayerResources \<Rightarrow> CheatDetectionResult option" where
  "validateResources_default playerId c s = validateResources playerId c s 5"

section \<open>Reading a state\<close>

text \<open>The resources of a player of the engine.\<close>

definition resourcesOf :: "GameEngine \<Rightarrow> string \<Rightarrow> PlayerResources option" where
  "resourcesOf g pid = map_option p_resources (mget (players g) pid)"

text \<open>The number of units a player owns (what \<open>handleProduce\<close> counts as the supply in
  use), and the unit variants queued at a building.\<close>

definition liveUnits :: "GameEngine \<Rightarrow> string \<Rightarrow> nat" where
  "liveUnits g pid = length (filter (\<lambda>u. ownerId u = pid) (mvalues (units g)))"

definition queueOf :: "GameEngine \<Rightarrow> string \<Rightarrow> UnitType list" where
  "queueOf g bid =
    (case mget (buildings g) bid of None \<Rightarrow> [] | Some b \<Rightarrow> map q_type (productionQueue b))"

text \<open>The variants of the buildings whose centre is at a position.\<close>

definition builtAt :: "GameEngine \<Rightarrow> real \<Rightarrow> real \<Rightarrow> BuildingType list" where
  "builtAt g x y =
    map b_type (filter (\<lambda>b. ent_x b = x \<and> ent_y b = y) (mvalues (buildings g)))"




subsection \<open>States on which double arithmetic is exact\<close>

text \<open>
  The engine computes in IEEE doubles.  Where positions are integers of magnitude at most
  \<open>2^24\<close> and hit points, damage values, radii and upgrade levels are integers of magnitude
  at most \<open>2^48\<close>, the differences, squares and sums of the distance computations, the
  comparisons of a distance with an integer range, and the sums and differences of the
  damage computations are exact and equal the real-number expressions of the model.  The
  splash falloff \<open>1 - dist / radius / 2\<close> is exact where the distance is a whole number of
  quarters of the radius.
\<close>

definition exactPos :: "real \<Rightarrow> bool" where
  "exactPos x = (x \<in> \<int> \<and> \<bar>x\<bar> \<le> 2 ^ 24)"





section \<open>Example states\<close>

text \<open>
  An environment whose clock starts at a millisecond timestamp and advances by one per
  reading, with constant random draws; the map of seed 424242; and builders for players,
  buildings and units with the field values \<open>addPlayer\<close>, \<open>createBuildingAtPosition\<close>,
  \<open>handleBuild\<close> and \<open>spawnUnit\<close> give them.
\<close>

definition env0 :: Env where
  "env0 = \<lparr>idCounter = 0, clockCalls = 0, randomCalls = 0,
           clockAt = (\<lambda>n. 1700000000000 + n), randomAt = (\<lambda>n. 1 / 2),
           randomText = (\<lambda>r. ''k3x9q2a'')\<rparr>"

definition demoMap :: GameMap where
  "demoMap = fst (generateMap 424242 env0)"

definition mkPlayer :: "string \<Rightarrow> string \<Rightarrow> Team \<Rightarrow> real \<Rightarrow> real \<Rightarrow> real \<Rightarrow> real \<Rightarrow> string \<times> Player" where
  "mkPlayer pid name tm g w atk dfn =
    (pid, \<lparr>p_id = pid, p_name = name, team = tm, color = (if tm = Host then ''#4169E1'' else ''#DC143C''),
           p_resources = \<lparr>gold = g, wood = w, supplyUsed = 5, maxSupply = 20\<rparr>,
           upgrades = \<lparr>up_attack = atk, up_defense = dfn, up_range = 0\<rparr>, ready = False\<rparr>)"

definition mkBuilding ::
  "string \<Rightarrow> string \<Rightarrow> BuildingType \<Rightarrow> real \<Rightarrow> real \<Rightarrow> real \<Rightarrow> ProductionQueueItem list \<Rightarrow> string \<times> Building" where
  "mkBuilding bid owner ty x y prog queue =
    (bid, \<lparr>ent_id = bid, ownerId = owner, ent_x = x, ent_y = y,
           hp = (if prog < 100 then bs_hp (BUILDING_STATS ty) * 0.1 else bs_hp (BUILDING_STATS ty)),
           maxHp = bs_hp (BUILDING_STATS ty), ent_size = bs_size (BUILDING_STATS ty),
           b_type = ty, b_progress = prog, productionQueue = queue, rallyPoint = None,
           b_isUnderAttack = False, b_lastAttackTime = 0\<rparr>)"

definition mkUnit :: "string \<Rightarrow> string \<Rightarrow> UnitType \<Rightarrow> real \<Rightarrow> real \<Rightarrow> string \<times> Unit" where
  "mkUnit uid owner ty x y =
    (uid, \<lparr>ent_id = uid, ownerId = owner, ent_x = x, ent_y = y,
           hp = us_hp (UNIT_STATS ty), maxHp = us_hp (UNIT_STATS ty), ent_size = 16,
           u_type = ty, u_state = StIdle, targetId = None, targetPosition = None, waypoints = [],
           attackRange = us_range (UNIT_STATS ty), attackDamage = us_damage (UNIT_STATS ty),
           attackCooldown = 60, attackCooldownRemaining = 0,
           moveSpeed = us_speed (UNIT_STATS ty), armor = us_armor (UNIT_STATS ty),
           gatherAmount = orElse (us_gatherAmount (UNIT_STATS ty)) 0,
           gatherRate = orElse (us_gatherRate (UNIT_STATS ty)) 0,
           u_isUnderAttack = False, u_lastAttackTime = 0\<rparr>)"

definition mkEngine :: "Player jsmap \<Rightarrow> Building jsmap \<Rightarrow> Unit jsmap \<Rightarrow> GameEngine" where
  "mkEngine ps bs us =
    \<lparr>tick = 100, gmap = demoMap, units = us, buildings = bs, resourceNodes = [], projectiles = [],
     players = ps, discoveredTiles = map (\<lambda>e. (fst e, [])) ps, gameOver = False, winner = None,
     winnerReason = None, difficulty = Normal, aiEnabled = False, aiPlayerId = None\<rparr>"

text \<open>Two players, each with the base \<open>initializeGame\<close> places at 12% and 88% of the map.\<close>

definition twoBases :: "Building jsmap" where
  "twoBases = [mkBuilding ''base-a'' ''alice'' Base 308 308 100 [],
               mkBuilding ''base-b'' ''bob'' Base 2132 2132 100 []]"

definition demoEngine :: "real \<Rightarrow> real \<Rightarrow> GameEngine" where
  "demoEngine g w =
    mkEngine [mkPlayer ''alice'' ''Alice'' Host g w 0 0, mkPlayer ''bob'' ''Bob'' Guest 200 100 0 0]
             twoBases []"

subsection \<open>What a player sees now\<close>

text \<open>
  The tiles in vision of a player's entities in the current state: for an entity, the tiles
  at the offsets the loops of \<open>updateFogOfWar\<close> visit that pass its three tests.
\<close>

definition playerEntities :: "GameEngine \<Rightarrow> string \<Rightarrow> (real \<times> real) list" where
  "playerEntities g pid =
     map (\<lambda>u. (ent_x u, ent_y u)) (filter (\<lambda>u. ownerId u = pid) (mvalues (units g)))
     @ map (\<lambda>b. (ent_x b, ent_y b)) (filter (\<lambda>b. ownerId b = pid) (mvalues (buildings g)))"

definition cellVisible :: "GameEngine \<Rightarrow> real \<Rightarrow> real \<Rightarrow> int \<Rightarrow> int \<Rightarrow> bool" where
  "cellVisible g ex ey dy dx =
    (let ts = real (m_tileSize (gmap g));
         tileX = \<lfloor>ex / ts\<rfloor> + dx;
         tileY = \<lfloor>ey / ts\<rfloor> + dy
     in \<not> distance (real_of_int dx) (real_of_int dy) * ts > VISION_RANGE
        \<and> \<not> (tileX < 0 \<or> tileX \<ge> int (m_width (gmap g)) \<or> tileY < 0 \<or> tileY \<ge> int (m_height (gmap g)))
        \<and> isTileVisible g ex ey tileX tileY)"

definition entityTiles :: "GameEngine \<Rightarrow> real \<times> real \<Rightarrow> (int \<times> int) set" where
  "entityTiles g e =
    (let ts = real (m_tileSize (gmap g)); r = \<lceil>VISION_RANGE / ts\<rceil>
     in {(\<lfloor>fst e / ts\<rfloor> + dx, \<lfloor>snd e / ts\<rfloor> + dy) | dx dy.
           dx \<in> {- r..r} \<and> dy \<in> {- r..r} \<and> cellVisible g (fst e) (snd e) dy dx})"

definition visibleNow :: "GameEngine \<Rightarrow> string \<Rightarrow> (int \<times> int) set" where
  "visibleNow g pid = (\<Union>e \<in> set (playerEntities g pid). entityTiles g e)"

definition coords :: "DiscoveredTile \<Rightarrow> int \<times> int" where
  "coords t = (dt_x t, dt_y t)"

text \<open>Alice's worker stands in the top row of the map, at \<open>(x, 20)\<close>.\<close>

definition fogEngine :: "real \<Rightarrow> GameEngine" where
  "fogEngine x =
    mkEngine [mkPlayer ''alice'' ''Alice'' Host 200 100 0 0, mkPlayer ''bob'' ''Bob'' Guest 200 100 0 0]
      twoBases [mkUnit ''wor-a'' ''alice'' Worker x 20]"

text \<open>
  Alice has just placed a barracks and a tower (both at progress 10, with a tenth of their
  hit points, as \<open>handleBuild\<close> creates them); the barracks holds an order for a worker that
  is one tick short of completion; a soldier of Bob stands 50 px from the tower.
\<close>

definition siteEngine :: GameEngine where
  "siteEngine =
    mkEngine [mkPlayer ''alice'' ''Alice'' Host 200 100 0 0, mkPlayer ''bob'' ''Bob'' Guest 200 100 0 0]
      (twoBases @
       [mkBuilding ''bar-a'' ''alice'' Barracks 1000 1000 10
          [\<lparr>q_id = ''q1'', q_type = Worker, q_progress = 479, queuedAt = 0\<rparr>],
        mkBuilding ''tow-a'' ''alice'' Tower 1000 1200 10 []])
      [mkUnit ''sol-b'' ''bob'' Soldier 1050 1200]"









text \<open>
  Alice owns 19 workers under a supply cap of 20 and holds 100 gold; she orders a worker
  from her base twice in a row.
\<close>

definition crowdedEngine :: GameEngine where
  "crowdedEngine =
    mkEngine [mkPlayer ''alice'' ''Alice'' Host 100 0 0 0, mkPlayer ''bob'' ''Bob'' Guest 200 100 0 0]
      twoBases
      (map (\<lambda>n. mkUnit (''wor-'' @ digits n) ''alice'' Worker (300 + real n) 400) [1..<20])"

definition firstOrder :: "bool \<times> GameEngine \<times> Env" where
  "firstOrder = processAction ''alice'' (Produce ''base-a'' Worker) crowdedEngine env0"

definition secondOrder :: "bool \<times> GameEngine \<times> Env" where
  "secondOrder =
    processAction ''alice'' (Produce ''base-a'' Worker) (fst (snd firstOrder)) (snd (snd firstOrder))"

text \<open>
  Two players with a worker each: in \<open>noBaseEngine\<close> each owns a barracks and neither owns a
  base; in \<open>oneBaseEngine owner\<close> the only building is a base of \<open>owner\<close>.
\<close>

definition noBaseEngine :: GameEngine where
  "noBaseEngine =
    mkEngine [mkPlayer ''alice'' ''Alice'' Host 200 100 0 0, mkPlayer ''bob'' ''Bob'' Guest 200 100 0 0]
      [mkBuilding ''bar-a'' ''alice'' Barracks 1000 1000 100 [],
       mkBuilding ''bar-b'' ''bob'' Barracks 1400 1400 100 []]
      [mkUnit ''wor-a'' ''alice'' Worker 300 300, mkUnit ''wor-b'' ''bob'' Worker 2100 2100]"

definition oneBaseEngine :: "string \<Rightarrow> GameEngine" where
  "oneBaseEngine owner =
    mkEngine [mkPlayer ''alice'' ''Alice'' Host 200 100 0 0, mkPlayer ''bob'' ''Bob'' Guest 200 100 0 0]
      [mkBuilding ''base-1'' owner Base 308 308 100 []]
      [mkUnit ''wor-a'' ''alice'' Worker 300 300, mkUnit ''wor-b'' ''bob'' Worker 2100 2100]"

text \<open>Room \<open>room-1\<close> of host Alice, waiting, with the given connections.\<close>

definition mkConn :: "string \<Rightarrow> string \<Rightarrow> Team \<Rightarrow> bool \<Rightarrow> string \<times> PlayerConnection" where
  "mkConn pid name tm rdy =
    (pid, \<lparr>pc_id = pid, pc_name = name, pc_team = tm,
           pc_color = (if tm = Host then ''#4169E1'' else ''#DC143C''), pc_ready = rdy,
           lastPing = 1700000000000, isConnected = True,
           pc_resources = \<lparr>gold = 200, wood = 100, supplyUsed = 5, maxSupply = 10\<rparr>,
           ownedUnitIds = {}, ownedBuildingIds = {}\<rparr>)"

definition mkRoom :: "PlayerConnection jsmap \<Rightarrow> GameRoom" where
  "mkRoom conns =
    \<lparr>room_id = ''room-1'', room_name = ''Duel'',
     config = \<lparr>roomId = ''room-1'', roomName = ''Duel'', mapSeed = 424242,
               cfg_difficulty = Normal, maxPlayers = 2\<rparr>,
     room_players = conns, status = Waiting, engine = None,
     room_createdAt = 1700000000000, startedAt = None, hostId = ''alice'',
     tickInterval = None, snapshotInterval = None\<rparr>"

definition mkRooms :: "PlayerConnection jsmap \<Rightarrow> GameRoom jsmap" where
  "mkRooms conns = [(''room-1'', mkRoom conns)]"

definition soloRoom :: GameRoom where
  "soloRoom = mkRoom [mkConn ''alice'' ''Alice'' Host False]"

definition soloRooms :: "GameRoom jsmap" where
  "soloRooms = [(''room-1'', soloRoom)]"

definition duoRooms :: "bool \<Rightarrow> GameRoom jsmap" where
  "duoRooms bobReady = mkRooms [mkConn ''alice'' ''Alice'' Host True, mkConn ''bob'' ''Bob'' Guest bobReady]"

section \<open>Atomicity of action processing\<close>

lemmas eval_defs =
  mkEngine_def mkPlayer_def mkBuilding_def mkUnit_def demoEngine_def twoBases_def
  mget_def mupdate_def mvalues_def mkeys_def

lemma handleMove_atomic: "handleMove p u t g = (False, g') \<Longrightarrow> g' = g"
  by (auto simp: handleMove_def split: option.splits if_splits)

lemma handleAttack_atomic: "handleAttack p u t g = (False, g') \<Longrightarrow> g' = g"
  by (auto simp: handleAttack_def split: option.splits if_splits)

lemma handleStop_atomic: "handleStop p u g = (False, g') \<Longrightarrow> g' = g"
  by (auto simp: handleStop_def split: option.splits if_splits)

lemma handlePatrol_atomic: "handlePatrol p u t g = (False, g') \<Longrightarrow> g' = g"
  by (auto simp: handlePatrol_def split: option.splits if_splits)

lemma handleAttackMove_atomic: "handleAttackMove p u t g = (False, g') \<Longrightarrow> g' = g"
  by (auto simp: handleAttackMove_def split: option.splits if_splits)

lemma handleUpgrade_atomic: "handleUpgrade p b ut g = (False, g') \<Longrightarrow> g' = g"
  by (auto simp: handleUpgrade_def Let_def split: option.splits if_splits)

lemma handleGather_atomic: "handleGather p u r g = (False, g') \<Longrightarrow> g' = g"
  by (auto simp: handleGather_def split: option.splits if_splits)

lemma handleProduce_atomic: "handleProduce p b ut g env = (False, g', env') \<Longrightarrow> g' = g \<and> env' = env"
  by (auto simp: handleProduce_def Let_def split_beta split: option.splits if_splits)

lemma handleBuild_atomic: "handleBuild p bt pos g env = (False, g', env') \<Longrightarrow> g' = g \<and> env' = env"
  by (auto simp: handleBuild_def Let_def split_beta split: option.splits if_splits)

lemma dispatch_atomic: "dispatch p a g env = (False, g', env') \<Longrightarrow> g' = g \<and> env' = env"
proof (cases a)
  case (Move u t)
  then show "dispatch p a g env = (False, g', env') \<Longrightarrow> g' = g \<and> env' = env"
    using handleMove_atomic [of p u t g g'] by (auto simp: noEnv_def prod_eq_iff)
next
  case (Attack u t)
  then show "dispatch p a g env = (False, g', env') \<Longrightarrow> g' = g \<and> env' = env"
    using handleAttack_atomic [of p u t g g'] by (auto simp: noEnv_def prod_eq_iff)
next
  case (Stop u)
  then show "dispatch p a g env = (False, g', env') \<Longrightarrow> g' = g \<and> env' = env"
    using handleStop_atomic [of p u g g'] by (auto simp: noEnv_def prod_eq_iff)
next
  case (HoldPosition u)
  then show "dispatch p a g env = (False, g', env') \<Longrightarrow> g' = g \<and> env' = env"
    using handleStop_atomic [of p u g g'] by (auto simp: noEnv_def prod_eq_iff handleHoldPosition_def)
next
  case (Patrol u t)
  then show "dispatch p a g env = (False, g', env') \<Longrightarrow> g' = g \<and> env' = env"
    using handlePatrol_atomic [of p u t g g'] by (auto simp: noEnv_def prod_eq_iff)
next
  case (AttackMove u t)
  then show "dispatch p a g env = (False, g', env') \<Longrightarrow> g' = g \<and> env' = env"
    using handleAttackMove_atomic [of p u t g g'] by (auto simp: noEnv_def prod_eq_iff)
next
  case (Produce b ut)
  then show "dispatch p a g env = (False, g', env') \<Longrightarrow> g' = g \<and> env' = env"
    using handleProduce_atomic [of p b ut g env g' env'] by simp
next
  case (Build bt pos)
  then show "dispatch p a g env = (False, g', env') \<Longrightarrow> g' = g \<and> env' = env"
    using handleBuild_atomic [of p bt pos g env g' env'] by simp
next
  case (Upgrade b ut)
  then show "dispatch p a g env = (False, g', env') \<Longrightarrow> g' = g \<and> env' = env"
    using handleUpgrade_atomic [of p b ut g g'] by (auto simp: noEnv_def prod_eq_iff)
next
  case (Gather u r)
  then show "dispatch p a g env = (False, g', env') \<Longrightarrow> g' = g \<and> env' = env"
    using handleGather_atomic [of p u r g g'] by (auto simp: noEnv_def prod_eq_iff)
qed simp_all

text \<open>
  C10: whenever \<open>GameEngine.processAction\<close> returns false, the engine state it leaves is the
  state it was called on, and the environment (the id counter included) is untouched: no
  resource is debited, no entity is created and no field of a unit or building is changed.
\<close>

theorem processAction_atomic_on_failure:
  "processAction playerId action g env = (False, g', env') \<Longrightarrow> g' = g \<and> env' = env"
  by (auto simp: processAction_def split: option.splits dest: dispatch_atomic)

text \<open>Alice has 50 gold and orders a catapult (120 gold, 80 wood) from her base: refused,
  nothing changes.\<close>

theorem processAction_atomic_on_failure_witness:
  "fst (processAction ''alice'' (Produce ''base-a'' Catapult) (demoEngine 50 0) env0) = False
   \<and> snd (processAction ''alice'' (Produce ''base-a'' Catapult) (demoEngine 50 0) env0)
       = (demoEngine 50 0, env0)"
proof -
  have f: "fst (processAction ''alice'' (Produce ''base-a'' Catapult) (demoEngine 50 0) env0) = False"
    by (simp add: processAction_def handleProduce_def eval_defs)
  then obtain g' env' where
    e: "processAction ''alice'' (Produce ''base-a'' Catapult) (demoEngine 50 0) env0 = (False, g', env')"
    by (metis prod.collapse)
  from processAction_atomic_on_failure [OF e] e show ?thesis by simp
qed

section \<open>Anti-cheat resource drift\<close>

lemma exactInt_numeral [simp]: "exactInt (numeral k) = (numeral k \<le> (2::real) ^ 48)"
  by (simp add: exactInt_def)

text \<open>
  C9, as stated, fails: a gold drift of 10 (beyond the tolerance of 5, within 50) is flagged
  with severity \<open>warning\<close>, not \<open>suspicious\<close>.
\<close>

theorem validateResources_suspicious_counterexample:
  "validateResources_default ''p1''
      \<lparr>gold = 110, wood = 100, supplyUsed = 5, maxSupply = 10\<rparr>
      \<lparr>gold = 100, wood = 100, supplyUsed = 5, maxSupply = 10\<rparr>
     = Some \<lparr>flagged = True, reason = Some (MinorGoldDiscrepancy 110 100), severity = Warning\<rparr>
   \<and> Warning \<noteq> Suspicious"
  by (simp add: validateResources_default_def validateResources_def exactResources_def)

text \<open>
  C9, amended, for resource values that are integers of magnitude at most \<open>2^48\<close> (where the
  code's double arithmetic is exact): with the default tolerance of 5 the check looks at gold
  first, then wood, then the client's own supply.  It is unflagged exactly when both drifts
  are within 5 and the client's supply does not exceed its supply cap; a drift beyond 5 and
  within 50 in the first resource that drifts is flagged with severity \<open>warning\<close>; a drift
  beyond 50 there is flagged \<open>confirmed\<close>; the severity \<open>suspicious\<close> is never returned.
\<close>

theorem validateResources_drift:
  assumes "exactResources c s"
  shows "\<exists>r. validateResources_default pid c s = Some r
    \<and> (flagged r =
          (\<not> (\<bar>gold c - gold s\<bar> \<le> 5 \<and> \<bar>wood c - wood s\<bar> \<le> 5 \<and> supplyUsed c \<le> maxSupply c)))
    \<and> (\<bar>gold c - gold s\<bar> > 50 \<longrightarrow> flagged r \<and> severity r = Confirmed)
    \<and> (5 < \<bar>gold c - gold s\<bar> \<and> \<bar>gold c - gold s\<bar> \<le> 50 \<longrightarrow> flagged r \<and> severity r = Warning)
    \<and> (\<bar>gold c - gold s\<bar> \<le> 5 \<and> \<bar>wood c - wood s\<bar> > 50 \<longrightarrow> flagged r \<and> severity r = Confirmed)
    \<and> (\<bar>gold c - gold s\<bar> \<le> 5 \<and> 5 < \<bar>wood c - wood s\<bar> \<and> \<bar>wood c - wood s\<bar> \<le> 50 \<longrightarrow>
           flagged r \<and> severity r = Warning)
    \<and> severity r \<noteq> Suspicious"
  using assms
  unfolding validateResources_default_def validateResources_def
  by (simp add: Let_def)

theorem validateResources_drift_witness:
  "exactResources \<lparr>gold = 160, wood = 100, supplyUsed = 5, maxSupply = 10\<rparr> \<lparr>gold = 100, wood = 100, supplyUsed = 5, maxSupply = 10\<rparr>
   \<and> exactResources \<lparr>gold = 94, wood = 100, supplyUsed = 5, maxSupply = 10\<rparr> \<lparr>gold = 100, wood = 100, supplyUsed = 5, maxSupply = 10\<rparr>
   \<and> exactResources \<lparr>gold = 100, wood = 151, supplyUsed = 5, maxSupply = 10\<rparr> \<lparr>gold = 100, wood = 100, supplyUsed = 5, maxSupply = 10\<rparr>
   \<and> exactResources \<lparr>gold = 100, wood = 120, supplyUsed = 5, maxSupply = 10\<rparr> \<lparr>gold = 100, wood = 100, supplyUsed = 5, maxSupply = 10\<rparr>
   \<and> exactResources \<lparr>gold = 105, wood = 95, supplyUsed = 5, maxSupply = 10\<rparr> \<lparr>gold = 100, wood = 100, supplyUsed = 5, maxSupply = 10\<rparr>
   \<and> validateResources_default ''p1''
      \<lparr>gold = 160, wood = 100, supplyUsed = 5, maxSupply = 10\<rparr>
      \<lparr>gold = 100, wood = 100, supplyUsed = 5, maxSupply = 10\<rparr>
     = Some \<lparr>flagged = True, reason = Some (SignificantGoldDiscrepancy 160 100), severity = Confirmed\<rparr> \<and>
   validateResources_default ''p1''
      \<lparr>gold = 94, wood = 100, supplyUsed = 5, maxSupply = 10\<rparr>
      \<lparr>gold = 100, wood = 100, supplyUsed = 5, maxSupply = 10\<rparr>
     = Some \<lparr>flagged = True, reason = Some (MinorGoldDiscrepancy 94 100), severity = Warning\<rparr> \<and>
   validateResources_default ''p1''
      \<lparr>gold = 100, wood = 151, supplyUsed = 5, maxSupply = 10\<rparr>
      \<lparr>gold = 100, wood = 100, supplyUsed = 5, maxSupply = 10\<rparr>
     = Some \<lparr>flagged = True, reason = Some (SignificantWoodDiscrepancy 151 100), severity = Confirmed\<rparr> \<and>
   validateResources_default ''p1''
      \<lparr>gold = 100, wood = 120, supplyUsed = 5, maxSupply = 10\<rparr>
      \<lparr>gold = 100, wood = 100, supplyUsed = 5, maxSupply = 10\<rparr>
     = Some \<lparr>flagged = True, reason = Some (MinorWoodDiscrepancy 120 100), severity = Warning\<rparr> \<and>
   validateResources_default ''p1''
      \<lparr>gold = 105, wood = 95, supplyUsed = 5, maxSupply = 10\<rparr>
      \<lparr>gold = 100, wood = 100, supplyUsed = 5, maxSupply = 10\<rparr>
     = Some \<lparr>flagged = False, reason = None, severity = Warning\<rparr>"
proof -
  have e: "exactResources \<lparr>gold = 160, wood = 100, supplyUsed = 5, maxSupply = 10\<rparr> \<lparr>gold = 100, wood = 100, supplyUsed = 5, maxSupply = 10\<rparr>"
      "exactResources \<lparr>gold = 94, wood = 100, supplyUsed = 5, maxSupply = 10\<rparr> \<lparr>gold = 100, wood = 100, supplyUsed = 5, maxSupply = 10\<rparr>"
      "exactResources \<lparr>gold = 100, wood = 151, supplyUsed = 5, maxSupply = 10\<rparr> \<lparr>gold = 100, wood = 100, supplyUsed = 5, maxSupply = 10\<rparr>"
      "exactResources \<lparr>gold = 100, wood = 120, supplyUsed = 5, maxSupply = 10\<rparr> \<lparr>gold = 100, wood = 100, supplyUsed = 5, maxSupply = 10\<rparr>"
      "exactResources \<lparr>gold = 105, wood = 95, supplyUsed = 5, maxSupply = 10\<rparr> \<lparr>gold = 100, wood = 100, supplyUsed = 5, maxSupply = 10\<rparr>"
    by (simp_all add: exactResources_def)
  show ?thesis
    using e validateResources_drift [OF e(1), of "''p1''"] validateResources_drift [OF e(2), of "''p1''"]
      validateResources_drift [OF e(3), of "''p1''"] validateResources_drift [OF e(4), of "''p1''"]
      validateResources_drift [OF e(5), of "''p1''"]
    by (simp add: validateResources_default_def validateResources_def)
qed

section \<open>Map lookups after an update\<close>

lemma mget_mupdate_same: "mget (mupdate k f m) k = map_option f (mget m k)"
  by (induction m) (auto simp: mget_def mupdate_def)


section \<open>Production accounting\<close>

text \<open>What \<open>handleProduce\<close> does when it accepts: the checks it has passed, and the state
  it leaves.\<close>

lemma handleProduce_accepted:
  assumes "processAction playerId (Produce buildingId unitType) g env = (True, g', env')"
  shows "\<exists>p b. mget (players g) playerId = Some p
           \<and> mget (buildings g) buildingId = Some b \<and> ownerId b = playerId
           \<and> c_gold (us_cost (UNIT_STATS unitType)) \<le> gold (p_resources p)
           \<and> c_wood (us_cost (UNIT_STATS unitType)) \<le> wood (p_resources p)
           \<and> real (length (filter (\<lambda>u. ownerId u = playerId) (mvalues (units g))))
                 + us_supply (UNIT_STATS unitType) \<le> maxSupply (p_resources p)
           \<and> mget (players g') playerId =
               Some (p\<lparr>p_resources := (p_resources p)
                      \<lparr>gold := gold (p_resources p) - c_gold (us_cost (UNIT_STATS unitType)),
                       wood := wood (p_resources p) - c_wood (us_cost (UNIT_STATS unitType))\<rparr>\<rparr>)
           \<and> mget (buildings g') buildingId =
               Some (b\<lparr>productionQueue := productionQueue b @
                        [\<lparr>q_id = fst (generateId env), q_type = unitType, q_progress = 0,
                          queuedAt = tick g\<rparr>]\<rparr>)
           \<and> units g' = units g \<and> env' = snd (generateId env)"
  using assms
  by (auto simp: processAction_def handleProduce_def Let_def split_beta
        mget_mupdate_same split: option.splits if_splits)

text \<open>
  C3 on the code: Alice holds 50 gold, no wood and supply 5 of 20, and orders a worker (cost
  50 gold, supply 1) from her base.  The engine accepts the order and debits the 50 gold at
  once, but her supply is still 5, not 6: \<open>handleProduce\<close> never writes \<open>resources.supply\<close>.
  The repeated order is refused by the engine, which has no reason to give.  With nothing
  reserved, the cap does not hold either: Alice with 19 units under a cap of 20 and 100 gold
  orders two workers in a row, and both orders are accepted.
\<close>

theorem produce_no_reservation:
  "resourcesOf (demoEngine 50 0) ''alice''
     = Some \<lparr>gold = 50, wood = 0, supplyUsed = 5, maxSupply = 20\<rparr>
   \<and> us_cost (UNIT_STATS Worker) = \<lparr>c_gold = 50, c_wood = 0\<rparr>
   \<and> us_supply (UNIT_STATS Worker) = 1
   \<and> fst (processAction ''alice'' (Produce ''base-a'' Worker) (demoEngine 50 0) env0)
   \<and> resourcesOf (fst (snd (processAction ''alice'' (Produce ''base-a'' Worker) (demoEngine 50 0) env0)))
        ''alice''
     = Some \<lparr>gold = 0, wood = 0, supplyUsed = 5, maxSupply = 20\<rparr>
   \<and> \<not> fst (processAction ''alice'' (Produce ''base-a'' Worker)
          (fst (snd (processAction ''alice'' (Produce ''base-a'' Worker) (demoEngine 50 0) env0)))
          (snd (snd (processAction ''alice'' (Produce ''base-a'' Worker) (demoEngine 50 0) env0))))
   \<and> liveUnits crowdedEngine ''alice'' = 19
   \<and> resourcesOf crowdedEngine ''alice''
       = Some \<lparr>gold = 100, wood = 0, supplyUsed = 5, maxSupply = 20\<rparr>
   \<and> fst firstOrder \<and> fst secondOrder
   \<and> queueOf (fst (snd secondOrder)) ''base-a'' = [Worker, Worker]
   \<and> liveUnits (fst (snd secondOrder)) ''alice'' = 19
   \<and> resourcesOf (fst (snd secondOrder)) ''alice''
       = Some \<lparr>gold = 0, wood = 0, supplyUsed = 5, maxSupply = 20\<rparr>"
  by (simp add: liveUnits_def queueOf_def resourcesOf_def crowdedEngine_def firstOrder_def
        secondOrder_def processAction_def handleProduce_def eval_defs split_beta generateId_def
        dateNow_def mathRandom_def env0_def Let_def)

section \<open>Helper facts\<close>

lemma mget_mset_same: "mget (mset k v m) k = Some v"
  by (induction m) (auto simp: mget_def)

lemma mget_mset_other: "k' \<noteq> k \<Longrightarrow> mget (mset k v m) k' = mget m k'"
  by (induction m) (auto simp: mget_def)

lemma distance_le_iff: "0 \<le> r \<Longrightarrow> distance dx dy \<le> r \<longleftrightarrow> dx * dx + dy * dy \<le> r * r"
proof -
  assume r: "0 \<le> r"
  have "sqrt (dx * dx + dy * dy) \<le> sqrt (r * r) \<longleftrightarrow> dx * dx + dy * dy \<le> r * r"
    by (rule real_sqrt_le_iff)
  moreover have "sqrt (r * r) = r" using r by simp
  ultimately show ?thesis by (simp add: distance_def)
qed

lemma distance_less_iff: "0 \<le> r \<Longrightarrow> distance dx dy < r \<longleftrightarrow> dx * dx + dy * dy < r * r"
proof -
  assume r: "0 \<le> r"
  have "sqrt (dx * dx + dy * dy) < sqrt (r * r) \<longleftrightarrow> dx * dx + dy * dy < r * r"
    by (rule real_sqrt_less_iff)
  moreover have "sqrt (r * r) = r" using r by simp
  ultimately show ?thesis by (simp add: distance_def)
qed

lemma generateMap_dims:
  "m_width (fst (generateMap seed env)) = 60"
  "m_height (fst (generateMap seed env)) = 60"
  "m_tileSize (fst (generateMap seed env)) = 40"
  by (simp_all add: generateMap_def Let_def split_beta)

lemma demoMap_dims: "m_width demoMap = 60" "m_height demoMap = 60" "m_tileSize demoMap = 40"
  by (simp_all add: demoMap_def generateMap_dims)

section \<open>Fog of war\<close>

lemma fogCell_coords:
  "coords ` set (fst (fogCell g ex ey dy dx acc)) =
     coords ` set (fst acc) \<union>
     (if cellVisible g ex ey dy dx
      then {(\<lfloor>ex / real (m_tileSize (gmap g))\<rfloor> + dx, \<lfloor>ey / real (m_tileSize (gmap g))\<rfloor> + dy)}
      else {})"
  by (auto simp: fogCell_def cellVisible_def Let_def split_beta coords_def)

lemma fold_dx_coords:
  "coords ` set (fst (fold (\<lambda>dx a. fogCell g ex ey dy dx a) dxs acc)) =
     coords ` set (fst acc) \<union>
     {(\<lfloor>ex / real (m_tileSize (gmap g))\<rfloor> + dx, \<lfloor>ey / real (m_tileSize (gmap g))\<rfloor> + dy) | dx.
        dx \<in> set dxs \<and> cellVisible g ex ey dy dx}"
proof (induction dxs arbitrary: acc)
  case Nil
  then show ?case by simp
next
  case (Cons d dxs)
  show ?case
    unfolding fold_Cons comp_apply Cons.IH fogCell_coords
    by auto
qed

lemma fold_dy_coords:
  "coords ` set (fst (fold (\<lambda>dy a1. fold (\<lambda>dx a2. fogCell g ex ey dy dx a2) dxs a1) dys acc)) =
     coords ` set (fst acc) \<union>
     {(\<lfloor>ex / real (m_tileSize (gmap g))\<rfloor> + dx, \<lfloor>ey / real (m_tileSize (gmap g))\<rfloor> + dy) | dx dy.
        dx \<in> set dxs \<and> dy \<in> set dys \<and> cellVisible g ex ey dy dx}"
proof (induction dys arbitrary: acc)
  case Nil
  then show ?case by simp
next
  case (Cons d dys)
  show ?case
    unfolding fold_Cons comp_apply Cons.IH fold_dx_coords
    by auto
qed

lemma fogEntity_coords:
  "coords ` set (fst (fogEntity g e acc)) = coords ` set (fst acc) \<union> entityTiles g e"
  unfolding fogEntity_def entityTiles_def Let_def fold_dy_coords
  by auto

lemma fold_fogEntity_coords:
  "coords ` set (fst (fold (fogEntity g) es acc)) = coords ` set (fst acc) \<union> (\<Union>e \<in> set es. entityTiles g e)"
proof (induction es arbitrary: acc)
  case Nil
  then show ?case by simp
next
  case (Cons e es)
  show ?case
    unfolding fold_Cons comp_apply Cons.IH fogEntity_coords
    by auto
qed


lemma fogPlayer_frame:
  "units (fst (fogPlayer p ge)) = units (fst ge)"
  "buildings (fst (fogPlayer p ge)) = buildings (fst ge)"
  "gmap (fst (fogPlayer p ge)) = gmap (fst ge)"
  "players (fst (fogPlayer p ge)) = players (fst ge)"
  by (simp_all add: fogPlayer_def Let_def split_beta)

lemma visibleNow_frame:
  "units g' = units g \<Longrightarrow> buildings g' = buildings g \<Longrightarrow> gmap g' = gmap g
     \<Longrightarrow> visibleNow g' pid = visibleNow g pid"
  by (simp add: visibleNow_def playerEntities_def entityTiles_def cellVisible_def isTileVisible_def)

lemma fogPlayer_discovered:
  "discoveredSet (fst (fogPlayer p ge)) pid =
     (if p_id p = pid then visibleNow (fst ge) pid else discoveredSet (fst ge) pid)"
proof (cases "p_id p = pid")
  case True
  have "coords ` set (fst (fold (fogEntity (fst ge)) (playerEntities (fst ge) (p_id p)) ([], snd ge)))
          = visibleNow (fst ge) (p_id p)"
    unfolding fold_fogEntity_coords visibleNow_def by simp
  with True show ?thesis
    by (simp add: fogPlayer_def Let_def split_beta discoveredSet_def mget_mset_same
          playerEntities_def coords_def image_def)
next
  case False
  then show ?thesis
    by (simp add: fogPlayer_def Let_def split_beta discoveredSet_def mget_mset_other)
qed

lemma fold_fogPlayer_discovered:
  "discoveredSet (fst (fold fogPlayer ps ge)) pid =
     (if pid \<in> p_id ` set ps then visibleNow (fst ge) pid else discoveredSet (fst ge) pid)"
proof (induction ps arbitrary: ge)
  case Nil
  then show ?case by simp
next
  case (Cons p ps)
  have v: "visibleNow (fst (fogPlayer p ge)) pid = visibleNow (fst ge) pid"
    by (rule visibleNow_frame) (simp_all add: fogPlayer_frame)
  show ?case
    unfolding fold_Cons comp_apply Cons.IH v fogPlayer_discovered
    by auto
qed

lemma discoveredSet_updateFogOfWar:
  "pid \<in> p_id ` set (mvalues (players g))
     \<Longrightarrow> discoveredSet (fst (updateFogOfWar g env)) pid = visibleNow g pid"
  by (simp add: updateFogOfWar_def fold_fogPlayer_discovered)


text \<open>After \<open>updateFogOfWar\<close> a player's discovered-tiles list holds exactly the tiles
  the player sees now; what the list held before is dropped.\<close>

lemma updateFogOfWar_frame:
  "units (fst (fold fogPlayer ps ge)) = units (fst ge)
   \<and> buildings (fst (fold fogPlayer ps ge)) = buildings (fst ge)
   \<and> gmap (fst (fold fogPlayer ps ge)) = gmap (fst ge)
   \<and> players (fst (fold fogPlayer ps ge)) = players (fst ge)"
  by (induction ps arbitrary: ge) (simp_all add: fogPlayer_frame)

lemma visible_at_220: "(0, 0) \<in> visibleNow (fogEngine 220) ''alice''"
proof -
  have "(0, 0) \<in> entityTiles (fogEngine 220) (220, 20)"
    unfolding entityTiles_def Let_def
    apply simp
    apply (rule exI [of _ "- 5"])
    apply (simp add: cellVisible_def isTileVisible_def VISION_RANGE_def fogEngine_def mkEngine_def
        demoMap_dims distance_le_iff distance_def)
    done
  then show ?thesis
    by (simp add: visibleNow_def playerEntities_def fogEngine_def eval_defs)
qed

lemma hidden_at_222: "(0, 0) \<notin> visibleNow ((fogEngine 220)\<lparr>units := mupdate ''wor-a'' (\<lambda>u. u\<lparr>ent_x := 222\<rparr>) (units (fogEngine 220))\<rparr>) ''alice''"
proof -
  have h: "5 + dx = 0 \<longleftrightarrow> dx = - 5" for dx :: int by arith
  show ?thesis
    by (auto simp: visibleNow_def playerEntities_def entityTiles_def cellVisible_def isTileVisible_def
        VISION_RANGE_def fogEngine_def eval_defs demoMap_dims distance_le_iff Let_def h)
qed

text \<open>
  C2 on the code: Alice's worker stands at \<open>(220, 20)\<close>; after the fog update of that tick
  tile \<open>(0, 0)\<close> is in her discovered-tiles list.  The worker then moves 2 px to the right (a
  worker's speed), and after the fog update of the next tick tile \<open>(0, 0)\<close> is no longer in
  the list: \<open>updateFogOfWar\<close> starts every tick from an empty list.
\<close>

theorem updateFogOfWar_forgets:
  "(0, 0) \<in> discoveredSet (fst (updateFogOfWar (fogEngine 220) env0)) ''alice''
   \<and> (0, 0) \<notin> discoveredSet
        (fst (updateFogOfWar
           ((fst (updateFogOfWar (fogEngine 220) env0))
              \<lparr>units := mupdate ''wor-a'' (\<lambda>u. u\<lparr>ent_x := 222\<rparr>)
                         (units (fst (updateFogOfWar (fogEngine 220) env0)))\<rparr>)
           (snd (updateFogOfWar (fogEngine 220) env0)))) ''alice''"
proof -
  let ?g1 = "fst (updateFogOfWar (fogEngine 220) env0)"
  let ?g1' = "?g1\<lparr>units := mupdate ''wor-a'' (\<lambda>u. u\<lparr>ent_x := 222\<rparr>) (units ?g1)\<rparr>"
  let ?s' = "(fogEngine 220)\<lparr>units := mupdate ''wor-a'' (\<lambda>u. u\<lparr>ent_x := 222\<rparr>) (units (fogEngine 220))\<rparr>"
  have fr: "units ?g1 = units (fogEngine 220)" "buildings ?g1 = buildings (fogEngine 220)"
    "gmap ?g1 = gmap (fogEngine 220)" "players ?g1 = players (fogEngine 220)"
    using updateFogOfWar_frame [of "mvalues (players (fogEngine 220))" "(fogEngine 220, env0)"]
    by (simp_all add: updateFogOfWar_def)
  have a: "''alice'' \<in> p_id ` set (mvalues (players (fogEngine 220)))"
    by (simp add: fogEngine_def eval_defs)
  have 1: "discoveredSet ?g1 ''alice'' = visibleNow (fogEngine 220) ''alice''"
    using a by (rule discoveredSet_updateFogOfWar)
  have "discoveredSet (fst (updateFogOfWar ?g1' (snd (updateFogOfWar (fogEngine 220) env0)))) ''alice''
          = visibleNow ?g1' ''alice''"
    by (rule discoveredSet_updateFogOfWar) (simp add: fr a)
  also have "\<dots> = visibleNow ?s' ''alice''"
    by (rule visibleNow_frame) (simp_all add: fr)
  finally show ?thesis
    using 1 visible_at_220 hidden_at_222 by simp
qed

section \<open>Buildings under construction\<close>

lemmas tick_eval =
  updateBuildings_def updateBuilding_def spawnUnit_def updateTowerAttack_def
  createProjectile_def generateId_def dateNow_def mathRandom_def env0_def siteEngine_def
  eval_defs split_beta Let_def distance_less_iff digits.simps

text \<open>
  C5 on the code: in one call of \<open>updateBuildings\<close> the barracks under construction
  (progress 10) advances its production queue, completes the order and spawns the worker,
  and the tower under construction (progress 10) fires an arrow at Bob's soldier.  Neither
  \<open>updateBuildings\<close> nor \<open>updateTowerAttack\<close> reads \<open>progress\<close>.
\<close>

theorem updateBuildings_incomplete_building:
  "map (\<lambda>e. (fst e, b_progress (snd e), map q_progress (productionQueue (snd e)))) (buildings siteEngine)
     = [(''base-a'', 100, []), (''base-b'', 100, []), (''bar-a'', 10, [479]), (''tow-a'', 10, [])]
   \<and> (case updateBuildings siteEngine env0 of
        (r, g', env') \<Rightarrow>
          r = Returned ()
          \<and> map (\<lambda>e. (fst e, b_progress (snd e), map q_progress (productionQueue (snd e)))) (buildings g')
              = [(''base-a'', 100, []), (''base-b'', 100, []), (''bar-a'', 10, []), (''tow-a'', 10, [])]
          \<and> map (\<lambda>e. (ownerId (snd e), u_type (snd e))) (units g')
              = [(''bob'', Soldier), (''alice'', Worker)]
          \<and> map (\<lambda>p. (pj_ownerId p, pj_targetId p, pj_damage p)) (projectiles g')
              = [(''alice'', ''sol-b'', 20)])"
  by (simp add: tick_eval)

section \<open>Damage\<close>

lemma distance_0_right: "distance dx 0 = \<bar>dx\<bar>"
  by (simp add: distance_def)


subsection \<open>A melee hit\<close>



lemma hitTarget_units_None:
  "mget (units g) tid = None \<Longrightarrow> mget (units (hitTarget tid damage g)) tid = None"
  by (simp add: hitTarget_def)




subsection \<open>A projectile impact\<close>



subsection \<open>A splash impact\<close>














lemma exactPos_numeral [simp]: "exactPos (numeral k) = (numeral k \<le> (2::real) ^ 24)"
  by (simp add: exactPos_def)

lemma exactInt_0 [simp]: "exactInt 0" "exactInt 1"
  by (simp_all add: exactInt_def)






section \<open>Win check\<close>

lemmas win_eval =
  checkWinConditions_def destructionCheck_def hasBase_def getPlayerName_def
  checkWinCondition_def nameOrPlayer_def noBaseEngine_def oneBaseEngine_def eval_defs Let_def

text \<open>
  C6, as stated, fails.  When neither player owns a base, the arbiter reports no game over,
  no winner and an empty list of eliminated players, and the engine's check ends the game
  with no winner and the reason "Alice eliminated": neither says "draw".  When only Alice
  owns a base, the engine's reason is "Bob eliminated": it names the loser.
\<close>

theorem win_check_counterexample:
  "\<not> hasBase noBaseEngine ''alice'' \<and> \<not> hasBase noBaseEngine ''bob''
   \<and> checkWinConditions noBaseEngine
       = \<lparr>wc_gameOver = False, wc_winner = None, wc_reason = None, eliminatedPlayers = []\<rparr>
   \<and> gameOver (checkWinCondition noBaseEngine)
   \<and> winner (checkWinCondition noBaseEngine) = None
   \<and> winnerReason (checkWinCondition noBaseEngine) = Some ''Alice eliminated''
   \<and> hasBase (oneBaseEngine ''alice'') ''alice'' \<and> \<not> hasBase (oneBaseEngine ''alice'') ''bob''
   \<and> winner (checkWinCondition (oneBaseEngine ''alice'')) = Some ''alice''
   \<and> winnerReason (checkWinCondition (oneBaseEngine ''alice'')) = Some ''Bob eliminated''"
  by (simp add: win_eval)

lemma find_base_Some:
  "list_ex (\<lambda>b. b_type b = Base \<and> ownerId b = pid) bs
     \<Longrightarrow> \<exists>b. find (\<lambda>b. b_type b = Base \<and> ownerId b = pid) bs = Some b \<and> ownerId b = pid"
  by (induction bs) auto

lemma find_base_None:
  "\<not> list_ex (\<lambda>b. b_type b = Base \<and> ownerId b = pid) bs
     \<Longrightarrow> find (\<lambda>b. b_type b = Base \<and> ownerId b = pid) bs = None"
  by (induction bs) auto

lemma hasBase_iff:
  "hasBase gs pid = list_ex (\<lambda>b. b_type b = Base \<and> ownerId b = pid) (mvalues (buildings gs))"
  by (induction "mvalues (buildings gs)") (auto simp: hasBase_def list_ex_iff)

lemma no_bases_iff:
  "(filter (\<lambda>b. b_type b = Base \<and> ownerId b = pid) bs = [])
     = (\<not> list_ex (\<lambda>b. b_type b = Base \<and> ownerId b = pid) bs)"
  by (auto simp: list_ex_iff filter_empty_conv)


lemma not_draw: "4 < length s \<Longrightarrow> n @ s \<noteq> ''draw''"
proof
  assume l: "4 < length s" and e: "n @ s = ''draw''"
  from e have "length (n @ s) = length ''draw''" by (rule arg_cong)
  with l show False by simp
qed

lemma destructionCheck_not_draw: "wc_reason (destructionCheck gs) \<noteq> Some ''draw''"
  by (auto simp: destructionCheck_def Let_def not_draw split: list.splits)

lemma destructionCheck_no_winner:
  "wc_winner (destructionCheck gs) = None
     \<Longrightarrow> \<not> wc_gameOver (destructionCheck gs) \<and> eliminatedPlayers (destructionCheck gs) = []"
  by (auto simp: destructionCheck_def Let_def split: list.splits if_splits)

lemma destructionCheck_with_buildings:
  assumes "mvalues (players gs) = [p0, p1]" "hasBase gs (p_id p0)" "hasBase gs (p_id p1)"
  shows "destructionCheck gs =
           \<lparr>wc_gameOver = False, wc_winner = None, wc_reason = None, eliminatedPlayers = []\<rparr>"
proof -
  have "filter (\<lambda>b. ownerId b = p_id p0) (mvalues (buildings gs)) \<noteq> []"
       "filter (\<lambda>b. ownerId b = p_id p1) (mvalues (buildings gs)) \<noteq> []"
    using assms(2,3) by (auto simp: hasBase_def list_ex_iff filter_empty_conv)
  then show ?thesis
    using assms(1) by (simp add: destructionCheck_def Let_def)
qed

text \<open>
  C6, amended, for a game of two players with distinct, non-empty ids.  If exactly one of
  the two owns a base, the arbiter returns game over with that player as winner, the reason
  "<winner> wins by elimination!" and, as the eliminated players, exactly the player who owns
  no base; the engine's check (on a game not yet over) sets \<open>gameOver\<close>, the same winner
  and the reason "<loser> eliminated".  If both own a base, neither check ends the game and
  the arbiter lists nobody as eliminated.  If neither owns a base, the engine's check sets
  \<open>gameOver\<close> with no winner and the reason "<first player> eliminated", and the arbiter's
  reason is not "draw" either.  (What else the arbiter returns when neither owns a base is
  not part of the statement.)
\<close>

theorem win_check_two_players:
  assumes ps: "players gs = [(p_id p0, p0), (p_id p1, p1)]"
    and ne: "p_id p0 \<noteq> p_id p1" "p_id p0 \<noteq> []" "p_id p1 \<noteq> []"
  shows
   "(hasBase gs (p_id p0) \<and> \<not> hasBase gs (p_id p1) \<longrightarrow>
       checkWinConditions gs =
         \<lparr>wc_gameOver = True, wc_winner = Some (p_id p0),
          wc_reason = Some (getPlayerName p0 @ '' wins by elimination!''),
          eliminatedPlayers = [p_id p1]\<rparr>
       \<and> (\<not> gameOver gs \<longrightarrow>
            checkWinCondition gs =
              gs\<lparr>gameOver := True, winner := Some (p_id p0),
                 winnerReason := Some (nameOrPlayer (Some p1) @ '' eliminated'')\<rparr>))
    \<and> (\<not> hasBase gs (p_id p0) \<and> hasBase gs (p_id p1) \<longrightarrow>
       checkWinConditions gs =
         \<lparr>wc_gameOver = True, wc_winner = Some (p_id p1),
          wc_reason = Some (getPlayerName p1 @ '' wins by elimination!''),
          eliminatedPlayers = [p_id p0]\<rparr>
       \<and> (\<not> gameOver gs \<longrightarrow>
            checkWinCondition gs =
              gs\<lparr>gameOver := True, winner := Some (p_id p1),
                 winnerReason := Some (nameOrPlayer (Some p0) @ '' eliminated'')\<rparr>))
    \<and> (hasBase gs (p_id p0) \<and> hasBase gs (p_id p1) \<longrightarrow>
       checkWinConditions gs =
         \<lparr>wc_gameOver = False, wc_winner = None, wc_reason = None, eliminatedPlayers = []\<rparr>
       \<and> checkWinCondition gs = gs)
    \<and> (\<not> hasBase gs (p_id p0) \<and> \<not> hasBase gs (p_id p1) \<longrightarrow>
       wc_reason (checkWinConditions gs) \<noteq> Some ''draw''
       \<and> (\<not> gameOver gs \<longrightarrow>
            checkWinCondition gs =
              gs\<lparr>gameOver := True, winner := None,
                 winnerReason := Some (nameOrPlayer (Some p0) @ '' eliminated'')\<rparr>))"
proof -
  have vs: "mvalues (players gs) = [p0, p1]" and ks: "mkeys (players gs) = [p_id p0, p_id p1]"
    using ps by (simp_all add: mvalues_def mkeys_def)
  have g0: "mget (players gs) (p_id p0) = Some p0" and g1: "mget (players gs) (p_id p1) = Some p1"
    using ps ne by (simp_all add: mget_def)
  note hb = hasBase_iff [of gs "p_id p0"] hasBase_iff [of gs "p_id p1"]
  have A: "hasBase gs (p_id p0) \<and> \<not> hasBase gs (p_id p1) \<longrightarrow>
       checkWinConditions gs =
         \<lparr>wc_gameOver = True, wc_winner = Some (p_id p0),
          wc_reason = Some (getPlayerName p0 @ '' wins by elimination!''),
          eliminatedPlayers = [p_id p1]\<rparr>"
    using vs ne by (simp add: checkWinConditions_def Let_def)
  have B: "\<not> hasBase gs (p_id p0) \<and> hasBase gs (p_id p1) \<longrightarrow>
       checkWinConditions gs =
         \<lparr>wc_gameOver = True, wc_winner = Some (p_id p1),
          wc_reason = Some (getPlayerName p1 @ '' wins by elimination!''),
          eliminatedPlayers = [p_id p0]\<rparr>"
    using vs ne by (simp add: checkWinConditions_def Let_def)
  have C: "\<not> hasBase gs (p_id p0) \<and> \<not> hasBase gs (p_id p1) \<longrightarrow>
       checkWinConditions gs = destructionCheck gs"
    using vs ne hb by (simp add: checkWinConditions_def Let_def)
  have D: "hasBase gs (p_id p0) \<and> hasBase gs (p_id p1) \<longrightarrow> checkWinConditions gs = destructionCheck gs"
    using vs ne by (simp add: checkWinConditions_def Let_def)
  have EA: "hasBase gs (p_id p0) \<and> \<not> hasBase gs (p_id p1) \<and> \<not> gameOver gs \<longrightarrow>
            checkWinCondition gs =
              gs\<lparr>gameOver := True, winner := Some (p_id p0),
                 winnerReason := Some (nameOrPlayer (Some p1) @ '' eliminated'')\<rparr>"
  proof (intro impI, elim conjE)
    assume h0: "hasBase gs (p_id p0)" and h1: "\<not> hasBase gs (p_id p1)" and go: "\<not> gameOver gs"
    from h0 obtain b where
      b: "find (\<lambda>b. b_type b = Base \<and> ownerId b = p_id p0) (mvalues (buildings gs)) = Some b"
         "ownerId b = p_id p0"
      using find_base_Some [of "p_id p0" "mvalues (buildings gs)"] hb by auto
    show "checkWinCondition gs =
              gs\<lparr>gameOver := True, winner := Some (p_id p0),
                 winnerReason := Some (nameOrPlayer (Some p1) @ '' eliminated'')\<rparr>"
      using go ks h0 h1 hb b ne g1 by (simp add: checkWinCondition_def Let_def no_bases_iff)
  qed
  have EB: "\<not> hasBase gs (p_id p0) \<and> hasBase gs (p_id p1) \<and> \<not> gameOver gs \<longrightarrow>
            checkWinCondition gs =
              gs\<lparr>gameOver := True, winner := Some (p_id p1),
                 winnerReason := Some (nameOrPlayer (Some p0) @ '' eliminated'')\<rparr>"
  proof (intro impI, elim conjE)
    assume h0: "\<not> hasBase gs (p_id p0)" and h1: "hasBase gs (p_id p1)" and go: "\<not> gameOver gs"
    from h1 obtain b where
      b: "find (\<lambda>b. b_type b = Base \<and> ownerId b = p_id p1) (mvalues (buildings gs)) = Some b"
         "ownerId b = p_id p1"
      using find_base_Some [of "p_id p1" "mvalues (buildings gs)"] hb by auto
    show "checkWinCondition gs =
              gs\<lparr>gameOver := True, winner := Some (p_id p1),
                 winnerReason := Some (nameOrPlayer (Some p0) @ '' eliminated'')\<rparr>"
      using go ks h0 h1 hb b ne g0 by (simp add: checkWinCondition_def Let_def no_bases_iff)
  qed
  have EC: "\<not> hasBase gs (p_id p0) \<and> \<not> hasBase gs (p_id p1) \<and> \<not> gameOver gs \<longrightarrow>
            checkWinCondition gs =
              gs\<lparr>gameOver := True, winner := None,
                 winnerReason := Some (nameOrPlayer (Some p0) @ '' eliminated'')\<rparr>"
  proof (intro impI, elim conjE)
    assume h0: "\<not> hasBase gs (p_id p0)" and h1: "\<not> hasBase gs (p_id p1)" and go: "\<not> gameOver gs"
    have "find (\<lambda>b. b_type b = Base \<and> ownerId b = p_id p1) (mvalues (buildings gs)) = None"
      using h1 hb find_base_None [of "p_id p1" "mvalues (buildings gs)"] by simp
    then show "checkWinCondition gs =
              gs\<lparr>gameOver := True, winner := None,
                 winnerReason := Some (nameOrPlayer (Some p0) @ '' eliminated'')\<rparr>"
      using go ks h0 hb ne g0 by (simp add: checkWinCondition_def Let_def no_bases_iff)
  qed
  have ED: "hasBase gs (p_id p0) \<and> hasBase gs (p_id p1) \<longrightarrow> checkWinCondition gs = gs"
    using ks hb by (simp add: checkWinCondition_def Let_def no_bases_iff)
  show ?thesis
    using A B C D EA EB EC ED destructionCheck_not_draw [of gs]
      destructionCheck_with_buildings [OF vs]
    by simp
qed


theorem win_check_two_players_witness:
  "checkWinConditions (oneBaseEngine ''alice'') =
     \<lparr>wc_gameOver = True, wc_winner = Some ''alice'',
      wc_reason = Some ''Alice wins by elimination!'', eliminatedPlayers = [''bob'']\<rparr>
   \<and> checkWinCondition (oneBaseEngine ''alice'') =
       (oneBaseEngine ''alice'')\<lparr>gameOver := True, winner := Some ''alice'',
                                 winnerReason := Some ''Bob eliminated''\<rparr>
   \<and> checkWinConditions (oneBaseEngine ''bob'') =
     \<lparr>wc_gameOver = True, wc_winner = Some ''bob'',
      wc_reason = Some ''Bob wins by elimination!'', eliminatedPlayers = [''alice'']\<rparr>
   \<and> checkWinCondition (oneBaseEngine ''bob'') =
       (oneBaseEngine ''bob'')\<lparr>gameOver := True, winner := Some ''bob'',
                               winnerReason := Some ''Alice eliminated''\<rparr>
   \<and> wc_reason (checkWinConditions noBaseEngine) \<noteq> Some ''draw''
   \<and> checkWinCondition noBaseEngine =
       noBaseEngine\<lparr>gameOver := True, winner := None, winnerReason := Some ''Alice eliminated''\<rparr>
   \<and> checkWinConditions (demoEngine 200 100) =
     \<lparr>wc_gameOver = False, wc_winner = None, wc_reason = None, eliminatedPlayers = []\<rparr>
   \<and> checkWinCondition (demoEngine 200 100) = demoEngine 200 100"
proof -
  let ?a = "snd (mkPlayer ''alice'' ''Alice'' Host 200 100 0 0)"
  let ?b = "snd (mkPlayer ''bob'' ''Bob'' Guest 200 100 0 0)"
  have ids: "p_id ?a = ''alice''" "p_id ?b = ''bob''"
    by (simp_all add: mkPlayer_def)
  have names: "getPlayerName ?a = ''Alice''" "getPlayerName ?b = ''Bob''"
      "nameOrPlayer (Some ?a) = ''Alice''" "nameOrPlayer (Some ?b) = ''Bob''"
    by (simp_all add: mkPlayer_def getPlayerName_def nameOrPlayer_def)
  have ps: "players (oneBaseEngine ''alice'') = [(p_id ?a, ?a), (p_id ?b, ?b)]"
      "players (oneBaseEngine ''bob'') = [(p_id ?a, ?a), (p_id ?b, ?b)]"
      "players noBaseEngine = [(p_id ?a, ?a), (p_id ?b, ?b)]"
      "players (demoEngine 200 100) = [(p_id ?a, ?a), (p_id ?b, ?b)]"
    by (simp_all add: oneBaseEngine_def noBaseEngine_def demoEngine_def mkEngine_def mkPlayer_def)
  have hb: "hasBase (oneBaseEngine ''alice'') ''alice''" "\<not> hasBase (oneBaseEngine ''alice'') ''bob''"
      "\<not> hasBase (oneBaseEngine ''bob'') ''alice''" "hasBase (oneBaseEngine ''bob'') ''bob''"
      "\<not> hasBase noBaseEngine ''alice''" "\<not> hasBase noBaseEngine ''bob''"
      "hasBase (demoEngine 200 100) ''alice''" "hasBase (demoEngine 200 100) ''bob''"
    by (simp_all add: hasBase_def oneBaseEngine_def noBaseEngine_def eval_defs)
  have go: "\<not> gameOver (oneBaseEngine ''alice'')" "\<not> gameOver (oneBaseEngine ''bob'')"
      "\<not> gameOver noBaseEngine"
    by (simp_all add: oneBaseEngine_def noBaseEngine_def mkEngine_def)
  show ?thesis
    using win_check_two_players [OF ps(1)] win_check_two_players [OF ps(2)]
      win_check_two_players [OF ps(3)] win_check_two_players [OF ps(4)]
      hb go
    by (simp add: ids names)
qed

section \<open>Starting a game\<close>

lemma set_mset: "set (mset k v m) \<subseteq> insert (k, v) (set m)"
  by (induction m) auto

lemma keysOk_mset: "keysOk ps \<Longrightarrow> p_id p = k \<Longrightarrow> keysOk (mset k p ps)"
  using set_mset [of k p ps] by (auto simp: keysOk_def list_all_iff)

lemma keysOk_mupdate: "keysOk ps \<Longrightarrow> (\<And>p. p_id (f p) = p_id p) \<Longrightarrow> keysOk (mupdate k f ps)"
  by (auto simp: keysOk_def list_all_iff mupdate_def)

lemma mget_None_iff: "mget m k = None \<longleftrightarrow> k \<notin> fst ` set m"
  by (simp add: mget_def map_of_eq_None_iff)

lemma keys_mupdate: "fst ` set (mupdate k f m) = fst ` set m"
  by (induction m) (auto simp: mupdate_def)

lemma addPlayer_keysOk: "keysOk (players g) \<Longrightarrow> keysOk (players (addPlayer pid n tm c g))"
  by (simp add: addPlayer_def keysOk_mset)

lemma addPlayer_ai: "aiEnabled (addPlayer pid n tm c g) = aiEnabled g"
  by (simp add: addPlayer_def)

lemma addPlayers_inv:
  "keysOk (players g) \<Longrightarrow> keysOk (players (addPlayers conns g))
     \<and> aiEnabled (addPlayers conns g) = aiEnabled g"
  unfolding addPlayers_def
  by (induction conns arbitrary: g) (simp_all add: addPlayer_keysOk addPlayer_ai)

lemma createBuilding_players:
  "fst ` set (players (fst (createBuildingAtPosition ty owner tx ty' g env))) = fst ` set (players g)
   \<and> aiEnabled (fst (createBuildingAtPosition ty owner tx ty' g env)) = aiEnabled g"
  by (simp add: createBuildingAtPosition_def Let_def split_beta keys_mupdate)

lemma spawnUnit_returns:
  "owner \<in> fst ` set (players g) \<Longrightarrow>
     \<exists>u. fst (spawnUnit ty owner g env) = Returned u
       \<and> players (fst (snd (spawnUnit ty owner g env))) = players g"
  by (cases "mget (players g) owner")
     (auto simp: mget_None_iff spawnUnit_def Let_def split_beta)

lemma spawnAll_returns:
  "\<forall>e \<in> set todo. snd e \<in> fst ` set (players g) \<Longrightarrow> fst (spawnAll todo g env) = Returned ()"
proof (induction todo arbitrary: g env)
  case Nil
  then show ?case by simp
next
  case (Cons e todo)
  obtain ty owner where e: "e = (ty, owner)" by (cases e)
  with Cons.prems have o: "owner \<in> fst ` set (players g)" by simp
  from spawnUnit_returns [OF o, of ty env] obtain u where
    u: "fst (spawnUnit ty owner g env) = Returned u"
    and p: "players (fst (snd (spawnUnit ty owner g env))) = players g" by blast
  obtain g' env' where s: "spawnUnit ty owner g env = (Returned u, g', env')"
    using u by (metis prod.collapse)
  with p have "players g' = players g" by simp
  with Cons.prems have "\<forall>e \<in> set todo. snd e \<in> fst ` set (players g')" by simp
  from Cons.IH [OF this] show ?case using e s by simp
qed

lemma aiActive_off: "\<not> aiEnabled g \<Longrightarrow> aiActive g = None"
  by (simp add: aiActive_def)

lemma initializeGame_returns:
  assumes k: "keysOk (players g)" and a: "\<not> aiEnabled g"
  shows "fst (initializeGame g env) = Returned ()"
proof (cases "find (\<lambda>p. team p = Host) (mvalues (players g))")
  case None
  then show ?thesis using a by (simp add: initializeGame_def aiActive_off)
next
  case (Some h)
  then have "h \<in> set (mvalues (players g))"
    by (auto simp: find_Some_iff)
  then obtain e where e: "e \<in> set (players g)" "snd e = h" by (auto simp: mvalues_def)
  with k have "p_id h = fst e" by (auto simp: keysOk_def list_all_iff)
  with e have hk: "p_id h \<in> fst ` set (players g)" by force
  let ?c = "createBuildingAtPosition Base (p_id h) (12 * 0.6) (12 * 0.6) g env"
  have "fst (spawnAll [(Worker, p_id h), (Worker, p_id h), (Worker, p_id h)] (fst ?c) (snd ?c)) = Returned ()"
    by (rule spawnAll_returns) (simp add: createBuilding_players hk)
  then show ?thesis
    using Some a by (simp add: initializeGame_def Let_def split_beta aiActive_off createBuilding_players)
qed


lemma newGameEngine_fresh:
  "players (fst (newGameEngine s d env)) = [] \<and> \<not> aiEnabled (fst (newGameEngine s d env))"
  by (simp add: newGameEngine_def split_beta)

lemma startGame_engine_returns:
  "fst (initializeGame (addPlayers conns (fst (newGameEngine s d env))) env1) = Returned ()"
proof (rule initializeGame_returns)
  have k: "keysOk (players (fst (newGameEngine s d env)))"
    by (simp add: newGameEngine_fresh keysOk_def)
  from addPlayers_inv [OF k, of conns]
  show "keysOk (players (addPlayers conns (fst (newGameEngine s d env))))"
    and "\<not> aiEnabled (addPlayers conns (fst (newGameEngine s d env)))"
    by (simp_all add: newGameEngine_fresh)
qed

lemma startGame_ok:
  assumes "startable rid hid rooms"
  shows "succeeded (fst (startGame rid hid rooms env))
         \<and> map_option status (mget (fst (snd (startGame rid hid rooms env))) rid) = Some Playing"
proof -
  from assms obtain room where
    r: "mget rooms rid = Some room" "hostId room = hid" "status room = Waiting"
       "list_all pc_ready (mvalues (room_players room)) \<or> length (room_players room) \<le> 1"
    by (auto simp: startable_def split: option.splits)
  let ?ne = "newGameEngine (mapSeed (config room)) (cfg_difficulty (config room)) env"
  let ?ig = "initializeGame (addPlayers (room_players room) (fst ?ne)) (snd ?ne)"
  have "fst ?ig = Returned ()" by (rule startGame_engine_returns)
  then obtain g2 env2 where ig: "?ig = (Returned (), g2, env2)"
    by (metis prod.collapse)
  have "\<not> (\<not> list_all pc_ready (mvalues (room_players room)) \<and> 1 < length (room_players room))"
    using r(4) by auto
  then show ?thesis
    using r(1-3) ig
    by (simp add: startGame_def Let_def split_beta succeeded_def convertToRoomState_def
          mget_mupdate_same)
qed

lemma startGame_refused:
  assumes "\<not> startable rid hid rooms"
  shows "startGame rid hid rooms env = (Returned None, rooms, env)"
  using assms
  by (auto simp: startable_def startGame_def Let_def split: option.splits)

text \<open>
  C8, as stated, fails: Alice, host of a waiting room in which she is the only player and is
  not ready, starts the game, and \<open>startGame\<close> succeeds.  (The room manager has no AI slot;
  \<open>startGame\<close> never adds an AI player.)
\<close>

theorem startGame_solo_counterexample:
  "succeeded (fst (startGame ''room-1'' ''alice'' soloRooms env0))
   \<and> mget soloRooms ''room-1'' = Some soloRoom
   \<and> length (room_players soloRoom) = 1
   \<and> \<not> list_all pc_ready (mvalues (room_players soloRoom))"
proof -
  have "startable ''room-1'' ''alice'' soloRooms"
    by (simp add: startable_def soloRooms_def soloRoom_def mkRoom_def mkConn_def mget_def mvalues_def)
  from startGame_ok [OF this] show ?thesis
    by (simp add: soloRooms_def soloRoom_def mkRoom_def mkConn_def mvalues_def mget_def)
qed

text \<open>
  C8, amended: \<open>startGame\<close> succeeds (returns a started room, whose status is now playing)
  exactly when the room exists, the caller is the room's host, the room is waiting, and
  either every player in the room is ready or the room has at most one player; in every
  other case it returns null and leaves the rooms and the environment as they were.
\<close>

theorem startGame_guards:
  "(startable rid hid rooms \<longrightarrow>
      succeeded (fst (startGame rid hid rooms env))
      \<and> map_option status (mget (fst (snd (startGame rid hid rooms env))) rid) = Some Playing)
   \<and> (\<not> startable rid hid rooms \<longrightarrow> startGame rid hid rooms env = (Returned None, rooms, env))"
  using startGame_ok [of rid hid rooms env] startGame_refused [of rid hid rooms env] by blast

theorem startGame_guards_witness:
  "startable ''room-1'' ''alice'' (duoRooms True)
   \<and> succeeded (fst (startGame ''room-1'' ''alice'' (duoRooms True) env0))
   \<and> map_option status (mget (fst (snd (startGame ''room-1'' ''alice'' (duoRooms True) env0))) ''room-1'')
       = Some Playing
   \<and> \<not> startable ''room-1'' ''alice'' (duoRooms False)
   \<and> startGame ''room-1'' ''alice'' (duoRooms False) env0 = (Returned None, duoRooms False, env0)
   \<and> \<not> startable ''room-1'' ''bob'' (duoRooms True)
   \<and> startGame ''room-1'' ''bob'' (duoRooms True) env0 = (Returned None, duoRooms True, env0)"
proof -
  have s: "startable ''room-1'' ''alice'' (duoRooms True)"
      "\<not> startable ''room-1'' ''alice'' (duoRooms False)"
      "\<not> startable ''room-1'' ''bob'' (duoRooms True)"
    by (simp_all add: startable_def duoRooms_def mkRooms_def mkRoom_def mkConn_def mget_def mvalues_def)
  show ?thesis
    using s startGame_guards [of "''room-1''" "''alice''" "duoRooms True" env0]
      startGame_guards [of "''room-1''" "''alice''" "duoRooms False" env0]
      startGame_guards [of "''room-1''" "''bob''" "duoRooms True" env0]
    by simp
qed

section \<open>Build placement\<close>

text \<open>
  Row 0 of a generated map is the first row of the terrain loop: the resource loops write
  rows 2 to 57 only.  For seed 424242 its tile 5, the first one outside the spawn square, is
  drawn as water.
\<close>

lemma repeat_row0:
  assumes "\<And>g. mg_tiles (f g) ! 0 = mg_tiles g ! 0"
  shows "mg_tiles (repeat n f g) ! 0 = mg_tiles g ! 0"
  by (induction n arbitrary: g) (simp_all add: assms)

lemma placeGoldMine_row0: "mg_tiles (placeGoldMine w h ts g) ! 0 = mg_tiles g ! 0"
  by (simp add: placeGoldMine_def Let_def split_beta)

lemma placeForest_row0: "mg_tiles (placeForest w h ts g) ! 0 = mg_tiles g ! 0"
  by (simp add: placeForest_def Let_def split_beta)

lemma terrainRows_row0: "fst (terrainRows (y # ys) xs s) ! 0 = fst (terrainRow y xs s)"
  by (simp add: split_beta)

lemma upt_60: "[0..<60] = 0 # [1..<60]"
  by (simp add: upt_conv_Cons)

lemma generateMap_row0:
  "m_tiles (fst (generateMap seed env)) ! 0 = fst (terrainRow 0 [0..<60] seed)"
proof -
  have "m_tiles (fst (generateMap seed env)) ! 0 = fst (terrainRows [0..<60] [0..<60] seed) ! 0"
    unfolding generateMap_def Let_def split_beta
    by (simp only: GameMap.simps fst_conv repeat_row0 [OF placeForest_row0]
      repeat_row0 [OF placeGoldMine_row0] MapGen.simps)
  also have "\<dots> = fst (terrainRows (0 # [1..<60]) [0..<60] seed) ! 0"
    using upt_60 by (simp only:)
  also have "\<dots> = fst (terrainRow 0 [0..<60] seed)"
    by (rule terrainRows_row0)
  finally show ?thesis .
qed

lemma terrainRow_nth_0:
  "fst (terrainRow y (x # xs) s) ! 0 = (if isSpawn x y then Grass else terrain (fst (seededRandom s)))"
  by (simp add: split_beta)

lemma terrainRow_nth_pos:
  "0 < n \<Longrightarrow> fst (terrainRow y (x # xs) s) ! n
     = fst (terrainRow y xs (if isSpawn x y then s else snd (seededRandom s))) ! (n - 1)"
  by (cases n) (simp_all add: split_beta)

lemma upt_6: "[0..<60] = 0 # 1 # 2 # 3 # 4 # 5 # [6..<60]"
  by (simp add: upt_conv_Cons)

lemma water_tile: "fst (terrainRow 0 [0..<60] 424242) ! 5 = Water"
  apply (subst upt_6)
  apply (simp add: terrainRow_nth_pos terrainRow_nth_0 isSpawn_def seededRandom_def terrain_def
      del: terrainRow.simps)
  done


lemma demoMap_water: "m_tiles demoMap ! 0 ! 5 = Water"
  by (simp only: demoMap_def generateMap_row0 water_tile)

lemma canBuildAt_ignores_tiles:
  "canBuildAt (g\<lparr>gmap := (gmap g)\<lparr>m_tiles := ts\<rparr>\<rparr>) buildingType position
     = canBuildAt g buildingType position"
  by (simp add: canBuildAt_def)

text \<open>
  The build on the second barracks of the scenario of C7 is refused, by the validator and by
  the engine: the new site is 30 px from the barracks at (1000, 1000).
\<close>

lemma build_collision_example:
  "validateBuildAction Barracks \<lparr>pos_x = 1030, pos_y = 1000\<rparr>
        (pc_resources (snd (mkConn ''alice'' ''Alice'' Host True)))
        (Some (validatorStateOf siteEngine))
     = invalid ''Cannot build here: too close to another building''
   \<and> \<not> fst (processAction ''alice'' (Build Barracks \<lparr>pos_x = 1030, pos_y = 1000\<rparr>) siteEngine env0)"
  by (simp add: validateBuildAction_def validatorStateOf_def mkConn_def siteEngine_def
        processAction_def handleBuild_def canBuildAt_def eval_defs demoMap_dims
        distance_less_iff distance_0_right split_beta Let_def invalid_def)

text \<open>
  C7 on the code: on the map of seed 424242 tile (5, 0), the square from (200, 0) to
  (240, 40), is water.  Alice, with 200 gold and 100 wood, places a wall (size 40) at
  (220, 20), whose footprint is that square.  The validator returns valid and the engine
  accepts the action and creates the wall there: neither \<open>validateBuildAction\<close> nor
  \<open>canBuildAt\<close> reads the tiles.
\<close>

theorem build_on_water:
  "m_tiles (gmap (demoEngine 200 100)) ! 0 ! 5 = Water
   \<and> bs_size (BUILDING_STATS Wall) = 40
   \<and> builtAt (demoEngine 200 100) 220 20 = []
   \<and> validateBuildAction Wall \<lparr>pos_x = 220, pos_y = 20\<rparr>
        (pc_resources (snd (mkConn ''alice'' ''Alice'' Host True)))
        (Some (validatorStateOf (demoEngine 200 100))) = validOk
   \<and> fst (processAction ''alice'' (Build Wall \<lparr>pos_x = 220, pos_y = 20\<rparr>) (demoEngine 200 100) env0)
   \<and> builtAt (fst (snd (processAction ''alice'' (Build Wall \<lparr>pos_x = 220, pos_y = 20\<rparr>)
                           (demoEngine 200 100) env0))) 220 20 = [Wall]"
proof -
  have w: "m_tiles (gmap (demoEngine 200 100)) ! 0 ! 5 = Water"
    using demoMap_water by (simp add: demoEngine_def mkEngine_def)
  have r: "bs_size (BUILDING_STATS Wall) = 40
   \<and> builtAt (demoEngine 200 100) 220 20 = []
   \<and> validateBuildAction Wall \<lparr>pos_x = 220, pos_y = 20\<rparr>
        (pc_resources (snd (mkConn ''alice'' ''Alice'' Host True)))
        (Some (validatorStateOf (demoEngine 200 100))) = validOk
   \<and> fst (processAction ''alice'' (Build Wall \<lparr>pos_x = 220, pos_y = 20\<rparr>) (demoEngine 200 100) env0)
   \<and> builtAt (fst (snd (processAction ''alice'' (Build Wall \<lparr>pos_x = 220, pos_y = 20\<rparr>)
                           (demoEngine 200 100) env0))) 220 20 = [Wall]"
    by (simp add: builtAt_def validateBuildAction_def validatorStateOf_def mkConn_def
          processAction_def handleBuild_def canBuildAt_def eval_defs demoMap_dims
          distance_less_iff split_beta Let_def generateId_def dateNow_def mathRandom_def env0_def)
  show ?thesis using w r by (simp only: simp_thms)
qed

end
